theory Spec2Isabelle
  imports Main
begin

section \<open>Python values used by \<open>plane/app/views/base.py\<close>\<close>

text \<open>
  Strings are Python \<open>str\<close> values, read as lists of code points below 256.
  Truthiness of a string is non-emptiness; \<open>None\<close> is the \<open>None\<close> of an
  option type.
\<close>

text \<open>\<open>s.split(sep)\<close> for a one-character separator: one more piece than separators.\<close>

fun str_split :: "char \<Rightarrow> string \<Rightarrow> string list" where
  "str_split sep [] = [[]]"
| "str_split sep (c # cs) =
     (if c = sep then [] # str_split sep cs
      else (case str_split sep cs of
              [] \<Rightarrow> [[c]]
            | p # ps \<Rightarrow> (c # p) # ps))"

text \<open>\<open>sep.join(xs)\<close>, the inverse the accessors are specified against.\<close>

fun str_join :: "char \<Rightarrow> string list \<Rightarrow> string" where
  "str_join sep [] = []"
| "str_join sep [x] = x"
| "str_join sep (x # y # ys) = x @ sep # str_join sep (y # ys)"

text \<open>
  \<open>request.GET\<close> is a QueryDict: the (key, value) pairs of the query string in
  order; \<open>get(key, default)\<close> gives the last value of the key, the default when
  the key is absent.
\<close>

type_synonym QueryDict = "(string \<times> string) list"

definition QueryDict_get :: "QueryDict \<Rightarrow> string \<Rightarrow> string \<Rightarrow> string" where
  "QueryDict_get q key dflt =
     (case filter (\<lambda>kv. fst kv = key) q of
        [] \<Rightarrow> dflt
      | kv # kvs \<Rightarrow> snd (last (kv # kvs)))"

datatype principal = AnonymousUser | User (user_timezone: string)

fun is_authenticated :: "principal \<Rightarrow> bool" where
  "is_authenticated AnonymousUser = False"
| "is_authenticated (User tz) = True"

record request =
  user :: principal
  GET :: QueryDict
  request_method :: string
  full_path :: string

section \<open>Query accessors\<close>

text \<open>
  \<open>fields\<close> and \<open>expand\<close> of BaseViewSet and of BaseAPIView: the list
  comprehension keeps the truthy pieces, and an empty list becomes \<open>None\<close>.
\<close>

definition BaseViewSet_fields :: "request \<Rightarrow> string list option" where
  "BaseViewSet_fields req =
     (let fields = [field \<leftarrow> str_split CHR '','' (QueryDict_get (GET req) ''fields'' ''''). field \<noteq> []]
      in if fields \<noteq> [] then Some fields else None)"

definition BaseViewSet_expand :: "request \<Rightarrow> string list option" where
  "BaseViewSet_expand req =
     (let expand = [expand \<leftarrow> str_split CHR '','' (QueryDict_get (GET req) ''expand'' ''''). expand \<noteq> []]
      in if expand \<noteq> [] then Some expand else None)"

definition BaseAPIView_fields :: "request \<Rightarrow> string list option" where
  "BaseAPIView_fields req =
     (let fields = [field \<leftarrow> str_split CHR '','' (QueryDict_get (GET req) ''fields'' ''''). field \<noteq> []]
      in if fields \<noteq> [] then Some fields else None)"

definition BaseAPIView_expand :: "request \<Rightarrow> string list option" where
  "BaseAPIView_expand req =
     (let expand = [expand \<leftarrow> str_split CHR '','' (QueryDict_get (GET req) ''expand'' ''''). expand \<noteq> []]
      in if expand \<noteq> [] then Some expand else None)"

text \<open>What the accessors are specified to return for a parameter value made of the pieces \<open>xs\<close>.\<close>

definition kept_entries :: "string list \<Rightarrow> string list option" where
  "kept_entries xs =
     (if filter (\<lambda>x. x \<noteq> []) xs = [] then None else Some (filter (\<lambda>x. x \<noteq> []) xs))"

definition comma_free :: "string list \<Rightarrow> bool" where
  "comma_free xs \<longleftrightarrow> xs \<noteq> [] \<and> list_all (\<lambda>x. CHR '','' \<notin> set x) xs"

section \<open>Exceptions, responses and the ambient state\<close>

text \<open>
  An exception object is known by the classes its type inherits from (its MRO, without
  \<open>Exception\<close> itself), which is all that \<open>isinstance\<close> looks at. A class
  may inherit from several of the named ones.
\<close>

datatype exc_class =
    IntegrityError | ValidationError | ObjectDoesNotExist | KeyError | ValueError
  | APIException | OtherError string

datatype exn = Raised (classes: "exc_class list")

definition isinstance :: "exn \<Rightarrow> exc_class \<Rightarrow> bool" where
  "isinstance e c \<longleftrightarrow> c \<in> set (classes e)"

text \<open>\<open>Response(data, status=...)\<close>: the body is a JSON object, kept as its key/value pairs.\<close>

record response =
  data :: "(string \<times> string) list"
  status :: nat

definition HTTP_400_BAD_REQUEST :: nat where "HTTP_400_BAD_REQUEST = 400"
definition HTTP_404_NOT_FOUND :: nat where "HTTP_404_NOT_FOUND = 404"
definition HTTP_500_INTERNAL_SERVER_ERROR :: nat where "HTTP_500_INTERNAL_SERVER_ERROR = 500"

type_synonym tzinfo = string

text \<open>
  Everything the module does besides returning a value, in the order it happens: store
  queries, the two calls into \<open>django.utils.timezone\<close>, the call of the resource
  handler, \<open>log_exception\<close> and \<open>print\<close> (of the exception with its traceback,
  of the text \<open>Server Error\<close>, of the method and path with the query count).
\<close>

datatype event =
    Query "string option" string
  | Activate tzinfo
  | Deactivate
  | Handler_invoked "tzinfo option"
  | Logged exn
  | Printed_exception exn
  | Printed_server_error
  | Printed_queries string string

text \<open>
  \<open>active_tz\<close> is the per-thread current time zone of \<open>django.utils.timezone\<close>
  (\<open>None\<close>: not set, the default zone applies); it outlives the request.
\<close>

record world =
  active_tz :: "tzinfo option"
  events :: "event list"

definition emit :: "event \<Rightarrow> world \<Rightarrow> world" where
  "emit ev w = w\<lparr>events := events w @ [ev]\<rparr>"

definition timezone_activate :: "tzinfo \<Rightarrow> world \<Rightarrow> world" where
  "timezone_activate z w = emit (Activate z) (w\<lparr>active_tz := Some z\<rparr>)"

definition timezone_deactivate :: "world \<Rightarrow> world" where
  "timezone_deactivate w = emit Deactivate (w\<lparr>active_tz := None\<rparr>)"

text \<open>
  Modelled from the spec: \<open>plane.utils.exception_logger.log_exception\<close> is not among
  the sources. The spec gives its contract: \<open>log(error)\<close>, fire-and-forget, unable to
  fail the request. It records the error and returns.
\<close>

definition log_exception :: "exn \<Rightarrow> world \<Rightarrow> world" where
  "log_exception e w = emit (Logged e) w"

text \<open>
  Modelled from the spec: the model \<open>plane.db.models.ProjectIdentifier\<close> is not among
  the sources. The spec describes it as the relation from (tenant, human-readable key) to
  canonical id, owned by the store and only queried here. A row carries the slug of its
  workspace, its name and the id of its project; the table is in primary-key order.
\<close>

record ProjectIdentifier =
  row_workspace_slug :: string
  row_name :: string
  row_project_id :: string

text \<open>
  What the module takes from outside: the settings, the store, the zone database and the
  framework methods reached through \<open>super()\<close>. \<open>super_initial\<close> is
  \<open>APIView.initial\<close> (authentication, permissions, throttles): \<open>None\<close> when it
  returns, the exception when it raises. \<open>super_handle_exception\<close> is
  \<open>APIView.handle_exception\<close>: the response it builds, or the exception it raises.
  \<open>handler\<close> is the resource handler, called with the request, the keyword arguments
  and the zone active at that moment. \<open>finalize_response\<close> may raise (it asserts that
  the handler returned a response).
\<close>

record env =
  DEBUG :: bool
  ProjectIdentifier_objects :: "ProjectIdentifier list"
  ZoneInfo :: "string \<Rightarrow> exn + tzinfo"
  super_initial :: "request \<Rightarrow> exn option"
  super_handle_exception :: "exn \<Rightarrow> exn + response"
  handler :: "request \<Rightarrow> (string \<rightharpoonup> string) \<Rightarrow> tzinfo option \<Rightarrow> exn + response"
  finalize_response :: "response \<Rightarrow> exn + response"

text \<open>The view object: \<open>self.kwargs\<close>, the keyword arguments captured from the URL.\<close>

record view =
  kwargs :: "string \<rightharpoonup> string"

section \<open>TimezoneMixin\<close>

text \<open>
  \<open>initial\<close>: the framework's \<open>initial\<close> first; then the zone of an
  authenticated user is looked up and activated, and an anonymous user gets the zone
  deactivated. \<open>user_timezone\<close> is read of an authenticated user only.
\<close>

definition TimezoneMixin_initial :: "env \<Rightarrow> request \<Rightarrow> world \<Rightarrow> (exn + unit) \<times> world" where
  "TimezoneMixin_initial env req w =
     (case super_initial env req of
        Some e \<Rightarrow> (Inl e, w)
      | None \<Rightarrow>
          if is_authenticated (user req) then
            (case ZoneInfo env (user_timezone (user req)) of
               Inl e \<Rightarrow> (Inl e, w)
             | Inr z \<Rightarrow> (Inr (), timezone_activate z w))
          else (Inr (), timezone_deactivate w))"

section \<open>The UUID parser\<close>

text \<open>
  \<open>uuid.UUID(hex)\<close> of the standard library: remove \<open>urn:\<close> and \<open>uuid:\<close>,
  strip braces, remove hyphens, require 32 characters, read them with \<open>int(hex, 16)\<close>
  and require a 128-bit value. Every failure is a ValueError, here \<open>None\<close>.
\<close>

text \<open>\<open>s.replace(old, '')\<close>: non-overlapping occurrences, left to right.\<close>

fun str_remove :: "string \<Rightarrow> string \<Rightarrow> string" where
  "str_remove old [] = []"
| "str_remove old (c # cs) =
     (if old \<noteq> [] \<and> take (length old) (c # cs) = old
      then str_remove old (drop (length old - 1) cs)
      else c # str_remove old cs)"

text \<open>\<open>s.strip(chars)\<close>: drop the characters of \<open>chars\<close> from both ends.\<close>

definition str_strip :: "string \<Rightarrow> string \<Rightarrow> string" where
  "str_strip chars s =
     rev (dropWhile (\<lambda>c. c \<in> set chars) (rev (dropWhile (\<lambda>c. c \<in> set chars) s)))"

definition hex_digit_value :: "char \<Rightarrow> nat option" where
  "hex_digit_value c =
     (let n = (of_char c :: nat) in
      if 48 \<le> n \<and> n \<le> 57 then Some (n - 48)
      else if 97 \<le> n \<and> n \<le> 102 then Some (n - 87)
      else if 65 \<le> n \<and> n \<le> 70 then Some (n - 55)
      else None)"

text \<open>
  White space for \<open>int()\<close>: tab, line feed, vertical tab, form feed, carriage return
  and space, and the two white-space code points between 128 and 255.
\<close>

definition int_space :: "char \<Rightarrow> bool" where
  "int_space c \<longleftrightarrow> (of_char c :: nat) \<in> {9, 10, 11, 12, 13, 32, 133, 160}"

text \<open>
  The digit loop of \<open>int()\<close>: digits with single underscores between them; it stops at
  the first other character and fails after an underscore. The flag says that the
  previous character was an underscore.
\<close>

fun scan_digits :: "bool \<Rightarrow> int \<Rightarrow> string \<Rightarrow> (int \<times> string) option" where
  "scan_digits prev acc [] = (if prev then None else Some (acc, []))"
| "scan_digits prev acc (c # cs) =
     (if c = CHR ''_'' then (if prev then None else scan_digits True acc cs)
      else (case hex_digit_value c of
              Some d \<Rightarrow> scan_digits False (16 * acc + int d) cs
            | None \<Rightarrow> if prev then None else Some (acc, c # cs)))"

text \<open>
  \<open>int(s, 16)\<close>: leading white space, an optional sign, an optional \<open>0x\<close> or
  \<open>0X\<close> with one underscore allowed after it, at least one digit, trailing white space.
\<close>

definition int_16 :: "string \<Rightarrow> int option" where
  "int_16 s =
     (let s1 = dropWhile int_space s;
          (sign, s2) = (case s1 of
                          c # cs \<Rightarrow> if c = CHR ''+'' then (1, cs)
                                    else if c = CHR ''-'' then (- 1, cs)
                                    else (1 :: int, s1)
                        | [] \<Rightarrow> (1, s1));
          s3 = (case s2 of
                  c # x # cs \<Rightarrow>
                    if c = CHR ''0'' \<and> (x = CHR ''x'' \<or> x = CHR ''X'')
                    then (case cs of u # r \<Rightarrow> if u = CHR ''_'' then r else cs | [] \<Rightarrow> cs)
                    else s2
                | _ \<Rightarrow> s2)
      in case s3 of
           [] \<Rightarrow> None
         | c # cs \<Rightarrow>
             if hex_digit_value c = None then None
             else (case scan_digits False 0 s3 of
                     None \<Rightarrow> None
                   | Some (n, rest) \<Rightarrow>
                       if dropWhile int_space rest = [] then Some (sign * n) else None))"

definition uuid_UUID :: "string \<Rightarrow> int option" where
  "uuid_UUID hex =
     (let hex1 = str_remove ''uuid:'' (str_remove ''urn:'' hex);
          hex2 = str_remove ''-'' (str_strip ''{}'' hex1)
      in if length hex2 \<noteq> 32 then None
         else (case int_16 hex2 of
                 None \<Rightarrow> None
               | Some i \<Rightarrow> if \<not> (0 \<le> i \<and> i < 2 ^ 128) then None else Some i))"

section \<open>BaseViewSet\<close>

text \<open>\<open>is_uuid\<close>: the constructor returned, or raised ValueError.\<close>

definition is_uuid :: "string \<Rightarrow> bool" where
  "is_uuid v = (case uuid_UUID v of Some u \<Rightarrow> True | None \<Rightarrow> False)"

text \<open>The property \<open>workspace_slug\<close>: \<open>self.kwargs.get("slug", None)\<close>.\<close>

definition workspace_slug :: "view \<Rightarrow> string option" where
  "workspace_slug self = kwargs self ''slug''"

text \<open>Truthiness of a value that is a string or \<open>None\<close>, as \<open>if project_id:\<close> tests it.\<close>

fun truthy :: "string option \<Rightarrow> bool" where
  "truthy None = False"
| "truthy (Some s) = (s \<noteq> [])"

text \<open>
  The query \<open>filter(workspace__slug=..., name=...).values("project_id").first()\<close>:
  the first matching row as a one-key dictionary, or \<open>None\<close>. It is recorded in the
  events.
\<close>

definition ProjectIdentifier_first ::
  "env \<Rightarrow> string option \<Rightarrow> string \<Rightarrow> world \<Rightarrow> (string \<times> string) list option \<times> world" where
  "ProjectIdentifier_first env slug nm w =
     (case filter (\<lambda>r. Some (row_workspace_slug r) = slug \<and> row_name r = nm)
             (ProjectIdentifier_objects env) of
        [] \<Rightarrow> (None, emit (Query slug nm) w)
      | r # rs \<Rightarrow> (Some [(''project_id'', row_project_id r)], emit (Query slug nm) w))"

definition get_project_id ::
  "env \<Rightarrow> view \<Rightarrow> string option \<Rightarrow> world \<Rightarrow> (exn + string option) \<times> world" where
  "get_project_id env self project_id w =
     (case project_id of
        None \<Rightarrow> (Inr project_id, w)
      | Some p \<Rightarrow>
          if p \<noteq> [] \<and> \<not> is_uuid p then
            (case ProjectIdentifier_first env (workspace_slug self) p w of
               (None, w1) \<Rightarrow> (Inl (Raised [ObjectDoesNotExist]), w1)
             | (Some project_identifier, w1) \<Rightarrow>
                 if project_identifier = [] then (Inl (Raised [ObjectDoesNotExist]), w1)
                 else (Inr (map_of project_identifier ''project_id''), w1))
          else (Inr project_id, w))"

text \<open>\<open>get_issue_id\<close>: the guarded statement is \<open>pass\<close>.\<close>

definition get_issue_id ::
  "env \<Rightarrow> view \<Rightarrow> string option \<Rightarrow> world \<Rightarrow> (exn + string option) \<times> world" where
  "get_issue_id env self issue_id w =
     (case issue_id of
        None \<Rightarrow> (Inr issue_id, w)
      | Some i \<Rightarrow>
          if i \<noteq> [] \<and> \<not> is_uuid i then (Inr issue_id, w)
          else (Inr issue_id, w))"

definition BaseViewSet_handle_exception :: "env \<Rightarrow> exn \<Rightarrow> world \<Rightarrow> response \<times> world" where
  "BaseViewSet_handle_exception env exc w =
     (case super_handle_exception env exc of
        Inr response \<Rightarrow> (response, w)
      | Inl e \<Rightarrow>
          (let w1 = (if DEBUG env then emit (Printed_exception e) w
                     else emit Printed_server_error w)
           in if isinstance e IntegrityError then
                (\<lparr>data = [(''error'', ''The payload is not valid'')],
                  status = HTTP_400_BAD_REQUEST\<rparr>, w1)
              else if isinstance e ValidationError then
                (\<lparr>data = [(''error'', ''Please provide valid detail'')],
                  status = HTTP_400_BAD_REQUEST\<rparr>, w1)
              else if isinstance e ObjectDoesNotExist then
                (\<lparr>data = [(''error'', ''The required object does not exist.'')],
                  status = HTTP_404_NOT_FOUND\<rparr>, w1)
              else if isinstance e KeyError then
                (\<lparr>data = [(''error'', ''The required key does not exist.'')],
                  status = HTTP_400_BAD_REQUEST\<rparr>, log_exception e w1)
              else
                (\<lparr>data = [(''error'', ''Something went wrong please try again later'')],
                  status = HTTP_500_INTERNAL_SERVER_ERROR\<rparr>, log_exception e w1)))"
section \<open>The framework's dispatch\<close>

text \<open>
  \<open>rest_framework.views.APIView.dispatch\<close>, which both classes reach through
  \<open>super().dispatch\<close>. It stores the keyword arguments it was called with in
  \<open>self.kwargs\<close>, runs \<open>self.initial\<close> and the handler inside a \<open>try\<close>
  whose \<open>except Exception\<close> calls \<open>self.handle_exception\<close>, and finalizes the
  response outside the \<open>try\<close>. \<open>initial\<close> and \<open>handle_exception\<close> are looked
  up on \<open>self\<close>, so they are arguments here.
\<close>

definition APIView_dispatch ::
  "env \<Rightarrow> (env \<Rightarrow> request \<Rightarrow> world \<Rightarrow> (exn + unit) \<times> world)
       \<Rightarrow> (env \<Rightarrow> exn \<Rightarrow> world \<Rightarrow> response \<times> world)
       \<Rightarrow> view \<Rightarrow> request \<Rightarrow> (string \<rightharpoonup> string) \<Rightarrow> world
       \<Rightarrow> (exn + response) \<times> view \<times> world" where
  "APIView_dispatch env initial handle_exception self req kw w =
     (let self1 = self\<lparr>kwargs := kw\<rparr>;
          (response, w3) =
            (case initial env req w of
               (Inl exc, w1) \<Rightarrow> handle_exception env exc w1
             | (Inr u, w1) \<Rightarrow>
                 (let w2 = emit (Handler_invoked (active_tz w1)) w1
                  in case handler env req kw (active_tz w1) of
                       Inl exc \<Rightarrow> handle_exception env exc w2
                     | Inr response \<Rightarrow> (response, w2)))
      in (finalize_response env response, self1, w3))"

text \<open>What a dispatch method of this module returns: a response, or an exception object.\<close>

datatype returned = Returned_response response | Returned_exception exn

text \<open>
  \<open>BaseViewSet.dispatch\<close>. The statements of the \<open>try\<close> block come first: an
  exception raised by any of them leaves the block with the view and the world as they
  are at that point. The keyword arguments given to \<open>super().dispatch\<close> are
  the \<open>kwargs\<close> of the call, not \<open>self.kwargs\<close>.
\<close>

definition BaseViewSet_dispatch_try ::
  "env \<Rightarrow> view \<Rightarrow> request \<Rightarrow> (string \<rightharpoonup> string) \<Rightarrow> world
     \<Rightarrow> (exn + response) \<times> view \<times> world" where
  "BaseViewSet_dispatch_try env self req kw w =
     (let project_id = kwargs self ''project_id'';
          (r1, self1, w1) =
            (if truthy project_id then
               (case get_project_id env self project_id w of
                  (Inl exc, w') \<Rightarrow> (Inl exc, self, w')
                | (Inr v, w') \<Rightarrow> (Inr (), self\<lparr>kwargs := (kwargs self)(''project_id'' := v)\<rparr>, w'))
             else (Inr (), self, w))
      in case r1 of
           Inl exc \<Rightarrow> (Inl exc, self1, w1)
         | Inr u1 \<Rightarrow>
             (let issue_id = kwargs self1 ''issue_id'';
                  (r2, self2, w2) =
                    (if truthy issue_id then
                       (case get_issue_id env self1 issue_id w1 of
                          (Inl exc, w') \<Rightarrow> (Inl exc, self1, w')
                        | (Inr v, w') \<Rightarrow>
                            (Inr (), self1\<lparr>kwargs := (kwargs self1)(''issue_id'' := v)\<rparr>, w'))
                     else (Inr (), self1, w1))
              in case r2 of
                   Inl exc \<Rightarrow> (Inl exc, self2, w2)
                 | Inr u2 \<Rightarrow>
                     (case APIView_dispatch env TimezoneMixin_initial
                             BaseViewSet_handle_exception self2 req kw w2 of
                        (Inl exc, self3, w3) \<Rightarrow> (Inl exc, self3, w3)
                      | (Inr response, self3, w3) \<Rightarrow>
                          (Inr response, self3,
                           if DEBUG env then emit (Printed_queries (request_method req) (full_path req)) w3
                           else w3))))"

text \<open>
  The \<open>except Exception as exc\<close> clause computes a response with
  \<open>handle_exception\<close> and then returns \<open>exc\<close>.
\<close>

definition BaseViewSet_dispatch ::
  "env \<Rightarrow> view \<Rightarrow> request \<Rightarrow> (string \<rightharpoonup> string) \<Rightarrow> world \<Rightarrow> returned \<times> view \<times> world" where
  "BaseViewSet_dispatch env self req kw w =
     (case BaseViewSet_dispatch_try env self req kw w of
        (Inr response, self1, w1) \<Rightarrow> (Returned_response response, self1, w1)
      | (Inl exc, self1, w1) \<Rightarrow>
          (let (response, w2) = BaseViewSet_handle_exception env exc w1
           in (Returned_exception exc, self1, w2)))"

section \<open>BaseAPIView\<close>

definition BaseAPIView_handle_exception :: "env \<Rightarrow> exn \<Rightarrow> world \<Rightarrow> response \<times> world" where
  "BaseAPIView_handle_exception env exc w =
     (case super_handle_exception env exc of
        Inr response \<Rightarrow> (response, w)
      | Inl e \<Rightarrow>
          if isinstance e IntegrityError then
            (\<lparr>data = [(''error'', ''The payload is not valid'')],
              status = HTTP_400_BAD_REQUEST\<rparr>, w)
          else if isinstance e ValidationError then
            (\<lparr>data = [(''error'', ''Please provide valid detail'')],
              status = HTTP_400_BAD_REQUEST\<rparr>, w)
          else if isinstance e ObjectDoesNotExist then
            (\<lparr>data = [(''error'', ''The required object does not exist.'')],
              status = HTTP_404_NOT_FOUND\<rparr>, w)
          else if isinstance e KeyError then
            (\<lparr>data = [(''error'', ''The required key does not exist.'')],
              status = HTTP_400_BAD_REQUEST\<rparr>, w)
          else
            (\<lparr>data = [(''error'', ''Something went wrong please try again later'')],
              status = HTTP_500_INTERNAL_SERVER_ERROR\<rparr>, log_exception e w))"

definition BaseAPIView_dispatch_try ::
  "env \<Rightarrow> view \<Rightarrow> request \<Rightarrow> (string \<rightharpoonup> string) \<Rightarrow> world
     \<Rightarrow> (exn + response) \<times> view \<times> world" where
  "BaseAPIView_dispatch_try env self req kw w =
     (case APIView_dispatch env TimezoneMixin_initial BaseAPIView_handle_exception self req kw w of
        (Inl exc, self1, w1) \<Rightarrow> (Inl exc, self1, w1)
      | (Inr response, self1, w1) \<Rightarrow>
          (Inr response, self1,
           if DEBUG env then emit (Printed_queries (request_method req) (full_path req)) w1 else w1))"

definition BaseAPIView_dispatch ::
  "env \<Rightarrow> view \<Rightarrow> request \<Rightarrow> (string \<rightharpoonup> string) \<Rightarrow> world \<Rightarrow> returned \<times> view \<times> world" where
  "BaseAPIView_dispatch env self req kw w =
     (case BaseAPIView_dispatch_try env self req kw w of
        (Inr response, self1, w1) \<Rightarrow> (Returned_response response, self1, w1)
      | (Inl exc, self1, w1) \<Rightarrow>
          (let (response, w2) = BaseAPIView_handle_exception env exc w1
           in (Returned_exception exc, self1, w2)))"

section \<open>Notions of the specification\<close>

text \<open>
  The textual forms of a UUID the claims name: the canonical form (five groups of 8, 4, 4, 4
  and 12 hexadecimal digits separated by hyphens) and 32 hexadecimal digits alone.
\<close>

definition is_hexdigit :: "char \<Rightarrow> bool" where
  "is_hexdigit c \<longleftrightarrow> hex_digit_value c \<noteq> None"

definition canonical_uuid_text :: "string \<Rightarrow> bool" where
  "canonical_uuid_text s \<longleftrightarrow>
     map length (str_split CHR ''-'' s) = [8, 4, 4, 4, 12]
     \<and> list_all (list_all is_hexdigit) (str_split CHR ''-'' s)"

definition hex32 :: "string \<Rightarrow> bool" where
  "hex32 s \<longleftrightarrow> length s = 32 \<and> list_all is_hexdigit s"

text \<open>Strings of hexadecimal digits and hyphens, and those among them with 32 digits.\<close>

definition plain :: "string \<Rightarrow> bool" where
  "plain s \<longleftrightarrow> list_all (\<lambda>c. c = CHR ''-'' \<or> is_hexdigit c) s"

definition uuid_plain :: "string \<Rightarrow> bool" where
  "uuid_plain s \<longleftrightarrow> plain s \<and> hex32 (filter (\<lambda>c. c \<noteq> CHR ''-'') s)"

text \<open>
  The classification table of the specification, read top to bottom: status and message
  for an error, by the first kind it belongs to.
\<close>

definition classification_table :: "exn \<Rightarrow> nat \<times> string" where
  "classification_table e =
     (if isinstance e IntegrityError then (400, ''The payload is not valid'')
      else if isinstance e ValidationError then (400, ''Please provide valid detail'')
      else if isinstance e ObjectDoesNotExist then (404, ''The required object does not exist.'')
      else if isinstance e KeyError then (400, ''The required key does not exist.'')
      else (500, ''Something went wrong please try again later''))"

definition error_response :: "nat \<times> string \<Rightarrow> response" where
  "error_response sm = \<lparr>data = [(''error'', snd sm)], status = fst sm\<rparr>"

text \<open>The events of the locale step, of the handler, and the diagnostic ones.\<close>

fun is_locale_event :: "event \<Rightarrow> bool" where
  "is_locale_event (Activate z) = True"
| "is_locale_event Deactivate = True"
| "is_locale_event ev = False"

fun is_handler_event :: "event \<Rightarrow> bool" where
  "is_handler_event (Handler_invoked z) = True"
| "is_handler_event ev = False"

fun is_diagnostic :: "event \<Rightarrow> bool" where
  "is_diagnostic (Logged e) = True"
| "is_diagnostic (Printed_exception e) = True"
| "is_diagnostic Printed_server_error = True"
| "is_diagnostic (Printed_queries m p) = True"
| "is_diagnostic ev = False"

text \<open>
  In a sequence of events, every handler call comes after a locale step of the same
  sequence; the flag says that one has been seen.
\<close>

fun locale_before_handler :: "bool \<Rightarrow> event list \<Rightarrow> bool" where
  "locale_before_handler seen [] = True"
| "locale_before_handler seen (ev # evs) =
     (if is_handler_event ev then seen \<and> locale_before_handler seen evs
      else locale_before_handler (seen \<or> is_locale_event ev) evs)"

text \<open>The events a call added to the world it started from.\<close>

definition added_events :: "world \<Rightarrow> world \<Rightarrow> event list" where
  "added_events w w' = drop (length (events w)) (events w')"

text \<open>
  Two relations between the world before and after a call. A quiet step adds events that
  are neither a locale step nor a handler call and leaves the zone alone. A guarded step
  adds events in which every handler call follows a locale step, and changes the zone
  only if a locale step is among them.
\<close>

definition is_quiet :: "event \<Rightarrow> bool" where
  "is_quiet ev \<longleftrightarrow> \<not> is_locale_event ev \<and> \<not> is_handler_event ev"

definition quiet_step :: "world \<Rightarrow> world \<Rightarrow> bool" where
  "quiet_step w w' \<longleftrightarrow>
     (\<exists>d. events w' = events w @ d \<and> list_all is_quiet d \<and> active_tz w' = active_tz w)"

definition guarded_step :: "world \<Rightarrow> world \<Rightarrow> bool" where
  "guarded_step w w' \<longleftrightarrow>
     (\<exists>new. events w' = events w @ new \<and> locale_before_handler False new
        \<and> (list_ex is_locale_event new \<or> active_tz w' = active_tz w))"

text \<open>
  A handled step adds one locale step \<open>l\<close>, directly followed by the handler call
  under the zone \<open>t\<close>, among quiet events.
\<close>

definition handled_step :: "event \<Rightarrow> tzinfo option \<Rightarrow> world \<Rightarrow> world \<Rightarrow> bool" where
  "handled_step l t w w' \<longleftrightarrow>
     (\<exists>pre post. events w' = events w @ pre @ l # Handler_invoked t # post
        \<and> list_all is_quiet pre \<and> list_all is_quiet post)"

section \<open>Sample values\<close>

text \<open>
  A store with the alias \<open>ENG\<close> of tenant \<open>acme\<close> and, for the same tenant, an
  alias written as 32 hexadecimal digits; a zone database with two zones, whose lookup
  raises ZoneInfoNotFoundError (a KeyError) for any other name; the framework as both
  classes configure it: \<open>permission_classes = [IsAuthenticated]\<close> makes
  \<open>super().initial\<close> raise NotAuthenticated for an anonymous request, and the
  framework's exception handler answers NotAuthenticated, PermissionDenied, Http404 and
  any other API exception itself and raises every other error again.
\<close>

definition hex_alias :: string where
  "hex_alias = ''0123456789abcdefABCDEF0123456789''"

definition sample_rows :: "ProjectIdentifier list" where
  "sample_rows = [\<lparr>row_workspace_slug = ''acme'', row_name = ''ENG'',
                   row_project_id = ''11111111-1111-1111-1111-111111111111''\<rparr>,
                  \<lparr>row_workspace_slug = ''acme'', row_name = hex_alias,
                   row_project_id = ''22222222-2222-2222-2222-222222222222''\<rparr>]"

definition sample_zones :: "string list" where
  "sample_zones = [''UTC'', ''Asia/Kolkata'']"

definition sample_exception_handler :: "exn \<Rightarrow> exn + response" where
  "sample_exception_handler e =
     (if isinstance e (OtherError ''NotAuthenticated'') then
        Inr \<lparr>data = [(''detail'', ''Authentication credentials were not provided.'')],
             status = 403\<rparr>
      else if isinstance e (OtherError ''PermissionDenied'') then
        Inr \<lparr>data = [(''detail'', ''You do not have permission to perform this action.'')],
             status = 403\<rparr>
      else if isinstance e (OtherError ''Http404'') then
        Inr \<lparr>data = [(''detail'', ''Not found.'')], status = 404\<rparr>
      else if isinstance e APIException then
        Inr \<lparr>data = [(''detail'', ''A server error occurred.'')], status = 500\<rparr>
      else Inl e)"

definition sample_env :: env where
  "sample_env =
     \<lparr>DEBUG = False,
      ProjectIdentifier_objects = sample_rows,
      ZoneInfo = (\<lambda>key. if key \<in> set sample_zones then Inr key
                       else Inl (Raised [OtherError ''ZoneInfoNotFoundError'', KeyError])),
      super_initial =
        (\<lambda>req. if is_authenticated (user req) then None
                else Some (Raised [OtherError ''NotAuthenticated'', APIException])),
      super_handle_exception = sample_exception_handler,
      handler = (\<lambda>req kw tz. Inr \<lparr>data = [], status = 200\<rparr>),
      finalize_response = (\<lambda>r. Inr r)\<rparr>"

text \<open>
  The same for a view that overrides \<open>permission_classes\<close> so that anonymous requests
  pass \<open>super().initial\<close>.
\<close>

definition open_env :: env where
  "open_env = sample_env\<lparr>super_initial := (\<lambda>req. None)\<rparr>"

text \<open>Such a view, with a handler result that \<open>finalize_response\<close> refuses.\<close>

definition asserting_env :: env where
  "asserting_env =
     open_env\<lparr>finalize_response := (\<lambda>r. Inl (Raised [OtherError ''AssertionError'']))\<rparr>"

definition acme_view :: view where
  "acme_view = \<lparr>kwargs = [''slug'' \<mapsto> ''acme'', ''project_id'' \<mapsto> ''ENG'']\<rparr>"

definition other_view :: view where
  "other_view = \<lparr>kwargs = [''slug'' \<mapsto> ''other'', ''project_id'' \<mapsto> ''ENG'']\<rparr>"

definition anonymous_request :: request where
  "anonymous_request = \<lparr>user = AnonymousUser, GET = [], request_method = ''GET'', full_path = ''/''\<rparr>"

definition user_request :: request where
  "user_request = \<lparr>user = User ''Asia/Kolkata'', GET = [], request_method = ''GET'', full_path = ''/''\<rparr>"

text \<open>A user whose stored zone name the zone database does not know.\<close>

definition unzoned_request :: request where
  "unzoned_request = \<lparr>user = User ''Mars/Phobos'', GET = [], request_method = ''GET'', full_path = ''/''\<rparr>"

definition fresh_world :: world where
  "fresh_world = \<lparr>active_tz = None, events = []\<rparr>"

definition reused_world :: world where
  "reused_world = \<lparr>active_tz = Some ''Asia/Kolkata'', events = []\<rparr>"

section \<open>Properties of the query accessors\<close>

lemmas sample_defs =
  sample_env_def open_env_def asserting_env_def sample_rows_def sample_zones_def
  sample_exception_handler_def hex_alias_def

lemma str_split_not_Nil: "str_split sep s \<noteq> []"
  by (induction s) (auto split: list.splits)

lemma str_split_append_sep:
  "sep \<notin> set x \<Longrightarrow> str_split sep (x @ sep # r) = x # str_split sep r"
  by (induction x) auto

lemma str_split_plain: "sep \<notin> set x \<Longrightarrow> str_split sep x = [x]"
  by (induction x) auto

lemma str_split_join:
  "xs \<noteq> [] \<Longrightarrow> list_all (\<lambda>x. sep \<notin> set x) xs \<Longrightarrow> str_split sep (str_join sep xs) = xs"
proof (induction sep xs rule: str_join.induct)
  case (1 sep)
  then show ?case by simp
next
  case (2 sep x)
  then show ?case by (simp add: str_split_plain)
next
  case (3 sep x y ys)
  then show ?case by (simp add: str_split_append_sep)
qed

lemma str_split_pieces: "list_all (\<lambda>x. sep \<notin> set x) (str_split sep s)"
  by (induction s) (auto split: list.splits)

lemma str_join_split: "str_join sep (str_split sep s) = s"
proof (induction s)
  case Nil
  then show ?case by simp
next
  case (Cons c cs)
  show ?case
  proof (cases "c = sep")
    case True
    obtain p ps where "str_split sep cs = p # ps"
      using str_split_not_Nil [of sep cs] by (cases "str_split sep cs") auto
    with True Cons show ?thesis by simp
  next
    case False
    obtain p ps where ps: "str_split sep cs = p # ps"
      using str_split_not_Nil [of sep cs] by (cases "str_split sep cs") auto
    with False Cons show ?thesis by (cases ps) auto
  qed
qed

lemma accessors_of_pieces:
  assumes "comma_free xs"
  shows "[f \<leftarrow> str_split CHR '','' (str_join CHR '','' xs). f \<noteq> []] = filter (\<lambda>x. x \<noteq> []) xs"
  using assms by (simp add: comma_free_def str_split_join)

text \<open>
  C8. Whatever the value of the \<open>fields\<close> (or \<open>expand\<close>) parameter, it is the
  comma-join of comma-free pieces, and all four accessors return those pieces without the
  empty ones, in order, or \<open>None\<close> when none is left; the result is never an empty list.
  \<open>a,b,,c\<close> gives \<open>[a, b, c]\<close>; the empty value and the absent parameter give \<open>None\<close>.
\<close>

theorem query_accessors_split_and_drop:
  "(comma_free xs \<and> QueryDict_get (GET req) ''fields'' '''' = str_join CHR '','' xs \<longrightarrow>
      BaseViewSet_fields req = kept_entries xs \<and> BaseAPIView_fields req = kept_entries xs)
   \<and> (comma_free xs \<and> QueryDict_get (GET req) ''expand'' '''' = str_join CHR '','' xs \<longrightarrow>
      BaseViewSet_expand req = kept_entries xs \<and> BaseAPIView_expand req = kept_entries xs)
   \<and> (\<exists>ys. comma_free ys \<and> v = str_join CHR '','' ys)
   \<and> BaseViewSet_fields req \<noteq> Some [] \<and> BaseViewSet_expand req \<noteq> Some []
   \<and> BaseAPIView_fields req \<noteq> Some [] \<and> BaseAPIView_expand req \<noteq> Some []
   \<and> BaseViewSet_fields (req\<lparr>GET := [(''fields'', ''a,b,,c'')]\<rparr>) = Some [''a'', ''b'', ''c'']
   \<and> BaseAPIView_fields (req\<lparr>GET := [(''fields'', ''a,b,,c'')]\<rparr>) = Some [''a'', ''b'', ''c'']
   \<and> BaseViewSet_fields (req\<lparr>GET := [(''fields'', '''')]\<rparr>) = None
   \<and> BaseAPIView_fields (req\<lparr>GET := [(''fields'', '''')]\<rparr>) = None
   \<and> BaseViewSet_fields (req\<lparr>GET := []\<rparr>) = None
   \<and> BaseViewSet_expand (req\<lparr>GET := [(''expand'', '''')]\<rparr>) = None"
proof -
  have split: "\<exists>ys. comma_free ys \<and> v = str_join CHR '','' ys"
    by (rule exI [of _ "str_split CHR '','' v"])
       (simp add: comma_free_def str_split_not_Nil str_split_pieces str_join_split)
  have f: "comma_free xs \<and> QueryDict_get (GET req) ''fields'' '''' = str_join CHR '','' xs \<longrightarrow>
      BaseViewSet_fields req = kept_entries xs \<and> BaseAPIView_fields req = kept_entries xs"
    by (simp add: BaseViewSet_fields_def BaseAPIView_fields_def kept_entries_def
        accessors_of_pieces Let_def)
  have e: "comma_free xs \<and> QueryDict_get (GET req) ''expand'' '''' = str_join CHR '','' xs \<longrightarrow>
      BaseViewSet_expand req = kept_entries xs \<and> BaseAPIView_expand req = kept_entries xs"
    by (simp add: BaseViewSet_expand_def BaseAPIView_expand_def kept_entries_def
        accessors_of_pieces Let_def)
  have n: "BaseViewSet_fields req \<noteq> Some [] \<and> BaseViewSet_expand req \<noteq> Some []
      \<and> BaseAPIView_fields req \<noteq> Some [] \<and> BaseAPIView_expand req \<noteq> Some []"
    by (simp add: BaseViewSet_fields_def BaseAPIView_fields_def BaseViewSet_expand_def
        BaseAPIView_expand_def Let_def)
  have x1: "BaseViewSet_fields (req\<lparr>GET := [(''fields'', ''a,b,,c'')]\<rparr>) = Some [''a'', ''b'', ''c'']"
    by (simp add: BaseViewSet_fields_def QueryDict_get_def)
  have x2: "BaseAPIView_fields (req\<lparr>GET := [(''fields'', ''a,b,,c'')]\<rparr>) = Some [''a'', ''b'', ''c'']"
    by (simp add: BaseAPIView_fields_def QueryDict_get_def)
  have x3: "BaseViewSet_fields (req\<lparr>GET := [(''fields'', '''')]\<rparr>) = None"
    by (simp add: BaseViewSet_fields_def QueryDict_get_def)
  have x4: "BaseAPIView_fields (req\<lparr>GET := [(''fields'', '''')]\<rparr>) = None"
    by (simp add: BaseAPIView_fields_def QueryDict_get_def)
  have x5: "BaseViewSet_fields (req\<lparr>GET := []\<rparr>) = None"
    by (simp add: BaseViewSet_fields_def QueryDict_get_def)
  have x6: "BaseViewSet_expand (req\<lparr>GET := [(''expand'', '''')]\<rparr>) = None"
    by (simp add: BaseViewSet_expand_def QueryDict_get_def)
  from split f e n x1 x2 x3 x4 x5 x6 show ?thesis by blast
qed

theorem query_accessors_split_and_drop_witness:
  "comma_free [''name'', '''', ''id'']
   \<and> QueryDict_get (GET \<lparr>user = AnonymousUser, GET = [(''fields'', ''name,,id'')],
        request_method = ''GET'', full_path = ''/''\<rparr>) ''fields'' '''' = str_join CHR '','' [''name'', '''', ''id'']
   \<and> BaseViewSet_fields \<lparr>user = AnonymousUser, GET = [(''fields'', ''name,,id'')],
        request_method = ''GET'', full_path = ''/''\<rparr> = Some [''name'', ''id'']"
  using query_accessors_split_and_drop
    [of "[''name'', '''', ''id'']"
        "\<lparr>user = AnonymousUser, GET = [(''fields'', ''name,,id'')], request_method = ''GET'', full_path = ''/''\<rparr>"]
  by (simp add: comma_free_def QueryDict_get_def kept_entries_def)

section \<open>The UUID parser accepts the named forms\<close>

lemma hexdigit_not_special:
  "is_hexdigit c \<Longrightarrow> c \<noteq> CHR ''u'' \<and> c \<noteq> CHR ''{'' \<and> c \<noteq> CHR ''}'' \<and> c \<noteq> CHR ''_''
     \<and> c \<noteq> CHR ''+'' \<and> c \<noteq> CHR ''-'' \<and> c \<noteq> CHR ''x'' \<and> c \<noteq> CHR ''X'' \<and> \<not> int_space c"
  by (auto simp: is_hexdigit_def hex_digit_value_def int_space_def Let_def split: if_splits)

lemma not_hexdigit:
  "\<not> is_hexdigit CHR ''u''" "\<not> is_hexdigit CHR ''{''" "\<not> is_hexdigit CHR ''}''"
  by (simp_all add: is_hexdigit_def hex_digit_value_def)

lemma hex_digit_bound: "hex_digit_value c = Some d \<Longrightarrow> d \<le> 15"
  by (auto simp: hex_digit_value_def Let_def split: if_splits)

lemma str_remove_absent:
  "old \<noteq> [] \<Longrightarrow> hd old \<notin> set s \<Longrightarrow> str_remove old s = s"
proof (induction s)
  case Nil
  then show ?case by simp
next
  case (Cons c cs)
  have "take (length old) (c # cs) \<noteq> old"
  proof
    assume "take (length old) (c # cs) = old"
    then have "hd old = c" using Cons.prems(1) by (cases old) auto
    with Cons.prems(2) show False by simp
  qed
  with Cons show ?case by simp
qed

lemma str_remove_single: "str_remove [c] s = filter (\<lambda>x. x \<noteq> c) s"
  by (induction s) auto

lemma str_strip_absent:
  assumes "\<forall>c\<in>set s. c \<notin> set chars"
  shows "str_strip chars s = s"
proof -
  have a: "dropWhile (\<lambda>c. c \<in> set chars) s = s"
    using assms by (cases s) auto
  have b: "dropWhile (\<lambda>c. c \<in> set chars) (rev s) = rev s"
    using assms by (cases "rev s") (auto simp: )
  show ?thesis by (simp add: str_strip_def a b)
qed

lemma scan_digits_hex:
  "list_all is_hexdigit s \<Longrightarrow> 0 \<le> acc \<Longrightarrow>
     \<exists>n. scan_digits False acc s = Some (n, []) \<and> 0 \<le> n \<and> n < (acc + 1) * 16 ^ length s"
proof (induction s arbitrary: acc)
  case Nil
  then show ?case by simp
next
  case (Cons c cs)
  from Cons.prems have cs: "list_all is_hexdigit cs" and hc: "is_hexdigit c" by simp_all
  from hc obtain d where d: "hex_digit_value c = Some d"
    by (auto simp: is_hexdigit_def)
  have nu: "c \<noteq> CHR ''_''" using hexdigit_not_special [OF hc] by simp
  have pos: "0 \<le> 16 * acc + int d" using Cons.prems(2) by simp
  from Cons.IH [OF cs pos] obtain n where
    n: "scan_digits False (16 * acc + int d) cs = Some (n, [])" "0 \<le> n"
       "n < (16 * acc + int d + 1) * 16 ^ length cs" by blast
  have "16 * acc + int d + 1 \<le> (acc + 1) * 16" using hex_digit_bound [OF d] by simp
  then have "(16 * acc + int d + 1) * 16 ^ length cs \<le> ((acc + 1) * 16) * 16 ^ length cs"
    by (rule mult_right_mono) simp
  with n(3) have "n < ((acc + 1) * 16) * 16 ^ length cs" by (rule less_le_trans)
  then have "n < (acc + 1) * 16 ^ length (c # cs)" by (simp add: algebra_simps)
  with n(1,2) d nu show ?case by simp
qed

lemma int_16_hex:
  assumes "list_all is_hexdigit s" "2 \<le> length s"
  shows "\<exists>n. int_16 s = Some n \<and> 0 \<le> n \<and> n < 16 ^ length s"
proof -
  from assms(2) obtain c x cs where s: "s = c # x # cs"
    by (cases s; cases "tl s") auto
  from assms(1) s have hc: "is_hexdigit c" and hx: "is_hexdigit x" by auto
  from scan_digits_hex [OF assms(1), of 0] obtain n where
    n: "scan_digits False 0 s = Some (n, [])" "0 \<le> n" "n < 16 ^ length s" by auto
  have "int_16 s = Some n"
    using hexdigit_not_special [OF hc] hexdigit_not_special [OF hx] hc n(1)
    unfolding int_16_def s by (simp add: is_hexdigit_def)
  with n(2,3) show ?thesis by blast
qed

lemma int_16_hex32:
  assumes "hex32 h"
  shows "\<exists>n. int_16 h = Some n \<and> 0 \<le> n \<and> n < 2 ^ 128"
proof -
  from assms have hex: "list_all is_hexdigit h" and len: "length h = 32"
    by (simp_all add: hex32_def)
  from int_16_hex [OF hex] len obtain n where
    n: "int_16 h = Some n" "0 \<le> n" "n < 16 ^ 32" by auto
  from n(3) have "n < 2 ^ 128" by simp
  with n(1,2) show ?thesis by blast
qed

lemma uuid_UUID_stripped:
  assumes "str_remove ''uuid:'' (str_remove ''urn:'' s) = s1"
    and "str_strip ''{}'' s1 = s2"
    and "filter (\<lambda>c. c \<noteq> CHR ''-'') s2 = h"
    and "hex32 h"
  shows "is_uuid s"
proof -
  from int_16_hex32 [OF assms(4)] obtain n where
    n: "int_16 h = Some n" "0 \<le> n" "n < 2 ^ 128" by blast
  from assms(4) have len: "length h = 32" by (simp add: hex32_def)
  have "uuid_UUID s = Some n"
    using assms(1,2,3) len n by (simp add: uuid_UUID_def str_remove_single)
  then show ?thesis by (simp add: is_uuid_def)
qed

lemma list_all_absent: "list_all P xs \<Longrightarrow> \<not> P a \<Longrightarrow> a \<notin> set xs"
  by (auto simp: list_all_iff)

lemma filter_absent: "a \<notin> set xs \<Longrightarrow> filter (\<lambda>c. c \<noteq> a) xs = xs"
  by (induction xs) auto

lemma list_all_concat: "list_all (list_all P) xss \<Longrightarrow> list_all P (concat xss)"
  by (induction xss) auto

lemma plain_no_u: "plain s \<Longrightarrow> CHR ''u'' \<notin> set s"
  unfolding plain_def
  by (erule list_all_absent) (simp add: not_hexdigit)

lemma plain_no_brace:
  assumes "plain s"
  shows "\<forall>c\<in>set s. c \<notin> set ''{}''"
proof
  fix c assume c: "c \<in> set s"
  have l: "CHR ''{'' \<notin> set s" using assms unfolding plain_def
    by (rule list_all_absent) (simp add: not_hexdigit)
  have r: "CHR ''}'' \<notin> set s" using assms unfolding plain_def
    by (rule list_all_absent) (simp add: not_hexdigit)
  from c l have "c \<noteq> CHR ''{''" by (rule_tac notI) simp
  moreover from c r have "c \<noteq> CHR ''}''" by (rule_tac notI) simp
  ultimately show "c \<notin> set ''{}''" by simp
qed

lemma str_strip_braced:
  assumes "\<forall>c\<in>set s. c \<notin> set ''{}''"
  shows "str_strip ''{}'' (CHR ''{'' # s @ ''}'') = s"
proof (cases s)
  case Nil
  then show ?thesis by (simp add: str_strip_def)
next
  case (Cons a t)
  have b: "dropWhile (\<lambda>c. c \<in> set ''{}'') (rev s) = rev s"
    using assms by (cases "rev s") auto
  have a: "dropWhile (\<lambda>c. c \<in> set ''{}'') (CHR ''{'' # s @ ''}'') = s @ ''}''"
    using assms Cons by simp
  show ?thesis unfolding str_strip_def a using b by simp
qed

lemma is_uuid_plain: "uuid_plain s \<Longrightarrow> is_uuid s"
proof (rule uuid_UUID_stripped)
  assume p: "uuid_plain s"
  then have pl: "plain s" by (simp add: uuid_plain_def)
  show "str_remove ''uuid:'' (str_remove ''urn:'' s) = s"
    using plain_no_u [OF pl] by (simp add: str_remove_absent)
  show "str_strip ''{}'' s = s"
    by (rule str_strip_absent) (rule plain_no_brace [OF pl])
  show "filter (\<lambda>c. c \<noteq> CHR ''-'') s = filter (\<lambda>c. c \<noteq> CHR ''-'') s" ..
  show "hex32 (filter (\<lambda>c. c \<noteq> CHR ''-'') s)" using p by (simp add: uuid_plain_def)
qed

lemma is_uuid_braced: "uuid_plain s \<Longrightarrow> is_uuid (CHR ''{'' # s @ ''}'')"
proof (rule uuid_UUID_stripped)
  assume p: "uuid_plain s"
  then have pl: "plain s" by (simp add: uuid_plain_def)
  have "hd ''urn:'' \<notin> set (CHR ''{'' # s @ ''}'')" "hd ''uuid:'' \<notin> set (CHR ''{'' # s @ ''}'')"
    using plain_no_u [OF pl] by simp_all
  then show "str_remove ''uuid:'' (str_remove ''urn:'' (CHR ''{'' # s @ ''}'')) = CHR ''{'' # s @ ''}''"
    by (simp only: str_remove_absent list.simps not_False_eq_True)
  show "str_strip ''{}'' (CHR ''{'' # s @ ''}'') = s"
    by (rule str_strip_braced) (rule plain_no_brace [OF pl])
  show "filter (\<lambda>c. c \<noteq> CHR ''-'') s = filter (\<lambda>c. c \<noteq> CHR ''-'') s" ..
  show "hex32 (filter (\<lambda>c. c \<noteq> CHR ''-'') s)" using p by (simp add: uuid_plain_def)
qed

lemma is_uuid_urn: "uuid_plain s \<Longrightarrow> is_uuid (''urn:uuid:'' @ s)"
proof (rule uuid_UUID_stripped)
  assume p: "uuid_plain s"
  then have pl: "plain s" by (simp add: uuid_plain_def)
  have r: "str_remove ''urn:'' s = s" "str_remove ''uuid:'' s = s"
    using plain_no_u [OF pl] by (simp_all add: str_remove_absent)
  show "str_remove ''uuid:'' (str_remove ''urn:'' (''urn:uuid:'' @ s)) = s"
    by (simp add: r)
  show "str_strip ''{}'' s = s"
    by (rule str_strip_absent) (rule plain_no_brace [OF pl])
  show "filter (\<lambda>c. c \<noteq> CHR ''-'') s = filter (\<lambda>c. c \<noteq> CHR ''-'') s" ..
  show "hex32 (filter (\<lambda>c. c \<noteq> CHR ''-'') s)" using p by (simp add: uuid_plain_def)
qed

lemma hex32_plain: "hex32 h \<Longrightarrow> uuid_plain h"
proof -
  assume h: "hex32 h"
  then have all: "list_all is_hexdigit h" by (simp add: hex32_def)
  have "\<not> is_hexdigit CHR ''-''" by (simp add: is_hexdigit_def hex_digit_value_def)
  with all have "CHR ''-'' \<notin> set h" by (rule list_all_absent)
  then have "filter (\<lambda>c. c \<noteq> CHR ''-'') h = h" by (rule filter_absent)
  moreover have "plain h" using all unfolding plain_def by (induction h) simp_all
  ultimately show ?thesis using h by (simp add: uuid_plain_def)
qed

lemma filter_sep_concat: "filter (\<lambda>c. c \<noteq> sep) s = concat (str_split sep s)"
  by (induction s) (auto split: list.splits)

lemma split_pieces_chars:
  "list_all (list_all P) (str_split sep s) \<Longrightarrow> list_all (\<lambda>c. c = sep \<or> P c) s"
  by (induction s) (auto split: list.splits if_splits)

lemma canonical_plain: "canonical_uuid_text c \<Longrightarrow> uuid_plain c"
proof -
  assume c: "canonical_uuid_text c"
  let ?ps = "str_split CHR ''-'' c"
  from c have len: "map length ?ps = [8, 4, 4, 4, 12]"
    and hex: "list_all (list_all is_hexdigit) ?ps"
    by (simp_all add: canonical_uuid_text_def)
  have pl: "plain c" unfolding plain_def by (rule split_pieces_chars) (rule hex)
  have "length (concat ?ps) = sum_list (map length ?ps)" by (simp add: length_concat)
  with len have l32: "length (concat ?ps) = 32" by simp
  have "list_all is_hexdigit (concat ?ps)" using hex by (rule list_all_concat)
  with l32 have "hex32 (filter (\<lambda>c. c \<noteq> CHR ''-'') c)"
    by (simp add: hex32_def filter_sep_concat)
  with pl show ?thesis by (simp add: uuid_plain_def)
qed

lemma find_filter: "find P xs = Some r \<Longrightarrow> \<exists>rest. filter P xs = r # rest"
  by (induction xs) (auto split: if_splits)

lemma filter_none: "\<forall>r\<in>set xs. \<not> P r \<Longrightarrow> filter P xs = []"
  by (induction xs) auto

lemma get_project_id_found:
  assumes "p \<noteq> []" "\<not> is_uuid p"
    and "filter (\<lambda>r. Some (row_workspace_slug r) = workspace_slug self \<and> row_name r = p)
           (ProjectIdentifier_objects env) = r # rest"
  shows "get_project_id env self (Some p) w =
           (Inr (Some (row_project_id r)), emit (Query (workspace_slug self) p) w)"
  using assms by (simp add: get_project_id_def ProjectIdentifier_first_def)

lemma get_project_id_missing:
  assumes "p \<noteq> []" "\<not> is_uuid p"
    and "filter (\<lambda>r. Some (row_workspace_slug r) = workspace_slug self \<and> row_name r = p)
           (ProjectIdentifier_objects env) = []"
  shows "get_project_id env self (Some p) w =
           (Inl (Raised [ObjectDoesNotExist]), emit (Query (workspace_slug self) p) w)"
  using assms by (simp add: get_project_id_def ProjectIdentifier_first_def)

lemma filter_within: "filter (\<lambda>r. A r \<and> B r) (filter A xs) = filter (\<lambda>r. A r \<and> B r) xs"
  by (induction xs) auto

lemma get_project_id_rows:
  "get_project_id env self project_id w =
   get_project_id (env\<lparr>ProjectIdentifier_objects :=
       filter (\<lambda>r. Some (row_workspace_slug r) = workspace_slug self) (ProjectIdentifier_objects env)\<rparr>)
     self project_id w"
  by (simp add: get_project_id_def ProjectIdentifier_first_def filter_within split: option.splits)

lemma get_project_id_is_uuid:
  "is_uuid p \<Longrightarrow> get_project_id env self (Some p) w = (Inr (Some p), w)"
  by (simp add: get_project_id_def)

text \<open>
  C3. A non-empty key that the UUID parser rejects is looked up among the aliases of the
  request's workspace: the first row of that workspace with that name gives the returned
  id, no such row raises ObjectDoesNotExist, and the rows of other workspaces never
  change the outcome.
\<close>

theorem get_project_id_alias_lookup:
  assumes "p \<noteq> []" and "\<not> is_uuid p"
  shows "(find (\<lambda>r. Some (row_workspace_slug r) = workspace_slug self \<and> row_name r = p)
            (ProjectIdentifier_objects env) = Some r \<longrightarrow>
          get_project_id env self (Some p) w =
            (Inr (Some (row_project_id r)), emit (Query (workspace_slug self) p) w))
       \<and> ((\<forall>r\<in>set (ProjectIdentifier_objects env).
              \<not> (Some (row_workspace_slug r) = workspace_slug self \<and> row_name r = p)) \<longrightarrow>
          get_project_id env self (Some p) w =
            (Inl (Raised [ObjectDoesNotExist]), emit (Query (workspace_slug self) p) w))
       \<and> (filter (\<lambda>r. Some (row_workspace_slug r) = workspace_slug self) rows1
            = filter (\<lambda>r. Some (row_workspace_slug r) = workspace_slug self) rows2 \<longrightarrow>
          get_project_id (env\<lparr>ProjectIdentifier_objects := rows1\<rparr>) self (Some p) w =
          get_project_id (env\<lparr>ProjectIdentifier_objects := rows2\<rparr>) self (Some p) w)"
proof (intro conjI impI)
  assume "find (\<lambda>r. Some (row_workspace_slug r) = workspace_slug self \<and> row_name r = p)
            (ProjectIdentifier_objects env) = Some r"
  then obtain rest where
    "filter (\<lambda>r. Some (row_workspace_slug r) = workspace_slug self \<and> row_name r = p)
       (ProjectIdentifier_objects env) = r # rest"
    using find_filter by fastforce
  with assms show "get_project_id env self (Some p) w =
      (Inr (Some (row_project_id r)), emit (Query (workspace_slug self) p) w)"
    by (rule get_project_id_found)
next
  assume "\<forall>r\<in>set (ProjectIdentifier_objects env).
      \<not> (Some (row_workspace_slug r) = workspace_slug self \<and> row_name r = p)"
  then have "filter (\<lambda>r. Some (row_workspace_slug r) = workspace_slug self \<and> row_name r = p)
      (ProjectIdentifier_objects env) = []"
    by (rule filter_none)
  with assms show "get_project_id env self (Some p) w =
      (Inl (Raised [ObjectDoesNotExist]), emit (Query (workspace_slug self) p) w)"
    by (rule get_project_id_missing)
next
  assume eq: "filter (\<lambda>r. Some (row_workspace_slug r) = workspace_slug self) rows1
      = filter (\<lambda>r. Some (row_workspace_slug r) = workspace_slug self) rows2"
  have "get_project_id (env\<lparr>ProjectIdentifier_objects := rows1\<rparr>) self (Some p) w =
        get_project_id (env\<lparr>ProjectIdentifier_objects :=
          filter (\<lambda>r. Some (row_workspace_slug r) = workspace_slug self) rows1\<rparr>) self (Some p) w"
    using get_project_id_rows [of "env\<lparr>ProjectIdentifier_objects := rows1\<rparr>" self "Some p" w]
    by simp
  also have "\<dots> = get_project_id (env\<lparr>ProjectIdentifier_objects := rows2\<rparr>) self (Some p) w"
    using get_project_id_rows [of "env\<lparr>ProjectIdentifier_objects := rows2\<rparr>" self "Some p" w] eq
    by simp
  finally show "get_project_id (env\<lparr>ProjectIdentifier_objects := rows1\<rparr>) self (Some p) w =
      get_project_id (env\<lparr>ProjectIdentifier_objects := rows2\<rparr>) self (Some p) w" .
qed

text \<open>
  C4. An absent key, an empty key and a key in canonical UUID form are returned as they
  are, and the world is unchanged: no store query is made.
\<close>

theorem get_project_id_short_circuit:
  "(project_id = None \<or> project_id = Some [] \<longrightarrow>
      get_project_id env self project_id w = (Inr project_id, w))
   \<and> (canonical_uuid_text p \<longrightarrow>
      get_project_id env self (Some p) w = (Inr (Some p), w))"
proof (intro conjI impI)
  assume "project_id = None \<or> project_id = Some []"
  then show "get_project_id env self project_id w = (Inr project_id, w)"
    by (rule disjE) (simp_all add: get_project_id_def)
next
  assume "canonical_uuid_text p"
  then have "is_uuid p" by (intro is_uuid_plain canonical_plain)
  then show "get_project_id env self (Some p) w = (Inr (Some p), w)"
    by (rule get_project_id_is_uuid)
qed

text \<open>
  C9. \<open>get_issue_id\<close> returns every value it is given, without a query and without
  raising.
\<close>

theorem get_issue_id_pass_through:
  "get_issue_id env self issue_id w = (Inr issue_id, w)"
  by (cases issue_id) (simp_all add: get_issue_id_def)

text \<open>
  C10. \<open>is_uuid\<close> holds of exactly the strings the UUID constructor parses, among
  them 32 hexadecimal digits, the canonical form, and both in braces or after
  \<open>urn:uuid:\<close>; \<open>get_project_id\<close> returns every such key unchanged, without
  a query.
\<close>

theorem is_uuid_accepts_parser_forms:
  "(is_uuid p \<longleftrightarrow> uuid_UUID p \<noteq> None)
   \<and> (is_uuid p \<longrightarrow> get_project_id env self (Some p) w = (Inr (Some p), w))
   \<and> (hex32 h \<longrightarrow> is_uuid h \<and> is_uuid (''{'' @ h @ ''}'') \<and> is_uuid (''urn:uuid:'' @ h))
   \<and> (canonical_uuid_text c \<longrightarrow>
        is_uuid c \<and> is_uuid (''{'' @ c @ ''}'') \<and> is_uuid (''urn:uuid:'' @ c))"
proof (intro conjI impI)
  show "is_uuid p \<longleftrightarrow> uuid_UUID p \<noteq> None"
    by (cases "uuid_UUID p") (simp_all add: is_uuid_def)
next
  assume "is_uuid p"
  then show "get_project_id env self (Some p) w = (Inr (Some p), w)"
    by (rule get_project_id_is_uuid)
next
  assume h: "hex32 h"
  show "is_uuid h" by (intro is_uuid_plain hex32_plain h)
  show "is_uuid (''{'' @ h @ ''}'')"
    using is_uuid_braced [OF hex32_plain [OF h]] by simp
  show "is_uuid (''urn:uuid:'' @ h)" by (intro is_uuid_urn hex32_plain h)
next
  assume c: "canonical_uuid_text c"
  show "is_uuid c" by (intro is_uuid_plain canonical_plain c)
  show "is_uuid (''{'' @ c @ ''}'')"
    using is_uuid_braced [OF canonical_plain [OF c]] by simp
  show "is_uuid (''urn:uuid:'' @ c)" by (intro is_uuid_urn canonical_plain c)
qed

section \<open>The resolver on the sample store\<close>

lemma ENG_not_uuid: "\<not> is_uuid ''ENG''"
  by (simp add: is_uuid_def uuid_UUID_def str_strip_def)

lemma sample_canonical: "canonical_uuid_text ''11111111-1111-1111-1111-111111111111''"
  by (simp add: canonical_uuid_text_def is_hexdigit_def hex_digit_value_def)

lemma sample_hex32: "hex32 ''0123456789abcdefABCDEF0123456789''"
  by (simp add: hex32_def is_hexdigit_def hex_digit_value_def)

theorem get_project_id_alias_lookup_witness:
  "get_project_id sample_env acme_view (Some ''ENG'') fresh_world =
     (Inr (Some ''11111111-1111-1111-1111-111111111111''),
      emit (Query (Some ''acme'') ''ENG'') fresh_world)
   \<and> get_project_id sample_env other_view (Some ''ENG'') fresh_world =
     (Inl (Raised [ObjectDoesNotExist]), emit (Query (Some ''other'') ''ENG'') fresh_world)
   \<and> get_project_id (sample_env\<lparr>ProjectIdentifier_objects := sample_rows\<rparr>)
        other_view (Some ''ENG'') fresh_world =
      get_project_id (sample_env\<lparr>ProjectIdentifier_objects := []\<rparr>)
        other_view (Some ''ENG'') fresh_world"
proof -
  have ne: "''ENG'' \<noteq> []" by simp
  note acme = get_project_id_alias_lookup [OF ne ENG_not_uuid,
      where self = acme_view and env = sample_env and w = fresh_world
        and r = "hd sample_rows" and ?rows1.0 = sample_rows and ?rows2.0 = sample_rows]
  note other = get_project_id_alias_lookup [OF ne ENG_not_uuid,
      where self = other_view and env = sample_env and w = fresh_world
        and r = "hd sample_rows" and ?rows1.0 = sample_rows and ?rows2.0 = "[]"]
  have a: "get_project_id sample_env acme_view (Some ''ENG'') fresh_world =
     (Inr (Some ''11111111-1111-1111-1111-111111111111''),
      emit (Query (Some ''acme'') ''ENG'') fresh_world)"
    using acme [THEN conjunct1]
    by (simp add: sample_defs acme_view_def workspace_slug_def)
  have b: "get_project_id sample_env other_view (Some ''ENG'') fresh_world =
     (Inl (Raised [ObjectDoesNotExist]), emit (Query (Some ''other'') ''ENG'') fresh_world)"
    using other [THEN conjunct2, THEN conjunct1]
    by (simp add: sample_defs other_view_def workspace_slug_def)
  have c: "get_project_id (sample_env\<lparr>ProjectIdentifier_objects := sample_rows\<rparr>)
        other_view (Some ''ENG'') fresh_world =
      get_project_id (sample_env\<lparr>ProjectIdentifier_objects := []\<rparr>)
        other_view (Some ''ENG'') fresh_world"
    using other [THEN conjunct2, THEN conjunct2]
    by (simp add: sample_rows_def other_view_def workspace_slug_def)
  from a b c show ?thesis by (intro conjI)
qed

text \<open>
  A key of 32 hexadecimal digits is not in canonical form, and here it is the name of an
  alias of the request's workspace; the parser accepts it, so it is returned as it is,
  without a query.
\<close>

theorem non_canonical_key_not_looked_up:
  "hex_alias \<noteq> []
   \<and> \<not> canonical_uuid_text hex_alias
   \<and> \<lparr>row_workspace_slug = ''acme'', row_name = hex_alias,
        row_project_id = ''22222222-2222-2222-2222-222222222222''\<rparr>
       \<in> set (ProjectIdentifier_objects sample_env)
   \<and> workspace_slug acme_view = Some ''acme''
   \<and> get_project_id sample_env acme_view (Some hex_alias) fresh_world
       = (Inr (Some hex_alias), fresh_world)"
proof -
  have "is_uuid hex_alias"
    unfolding hex_alias_def by (intro is_uuid_plain hex32_plain sample_hex32)
  then have g: "get_project_id sample_env acme_view (Some hex_alias) fresh_world
       = (Inr (Some hex_alias), fresh_world)"
    by (rule get_project_id_is_uuid)
  have n: "\<not> canonical_uuid_text hex_alias"
    by (simp add: canonical_uuid_text_def hex_alias_def)
  have r: "\<lparr>row_workspace_slug = ''acme'', row_name = hex_alias,
        row_project_id = ''22222222-2222-2222-2222-222222222222''\<rparr>
       \<in> set (ProjectIdentifier_objects sample_env)"
    by (simp add: sample_env_def sample_rows_def)
  have e: "hex_alias \<noteq> []" by (simp add: hex_alias_def)
  have v: "workspace_slug acme_view = Some ''acme''"
    by (simp add: workspace_slug_def acme_view_def)
  from e n r v g show ?thesis by (intro conjI)
qed

theorem get_project_id_short_circuit_witness:
  "get_project_id sample_env acme_view (Some []) fresh_world = (Inr (Some []), fresh_world)
   \<and> canonical_uuid_text ''11111111-1111-1111-1111-111111111111''
   \<and> get_project_id sample_env acme_view (Some ''11111111-1111-1111-1111-111111111111'') fresh_world
       = (Inr (Some ''11111111-1111-1111-1111-111111111111''), fresh_world)"
  using get_project_id_short_circuit
      [where project_id = "Some []" and p = "''11111111-1111-1111-1111-111111111111''"
         and env = sample_env and self = acme_view and w = fresh_world]
    sample_canonical
  by simp

theorem is_uuid_accepts_parser_forms_witness:
  "hex32 ''0123456789abcdefABCDEF0123456789''
   \<and> is_uuid ''0123456789abcdefABCDEF0123456789''
   \<and> is_uuid ''{0123456789abcdefABCDEF0123456789}''
   \<and> is_uuid ''urn:uuid:0123456789abcdefABCDEF0123456789''
   \<and> canonical_uuid_text ''11111111-1111-1111-1111-111111111111''
   \<and> is_uuid ''{11111111-1111-1111-1111-111111111111}''
   \<and> is_uuid ''urn:uuid:11111111-1111-1111-1111-111111111111''
   \<and> get_project_id sample_env acme_view (Some ''{0123456789abcdefABCDEF0123456789}'') fresh_world
       = (Inr (Some ''{0123456789abcdefABCDEF0123456789}''), fresh_world)"
proof -
  note forms = is_uuid_accepts_parser_forms
      [where h = "''0123456789abcdefABCDEF0123456789''"
         and c = "''11111111-1111-1111-1111-111111111111''", THEN conjunct2, THEN conjunct2]
  from forms [THEN conjunct1] sample_hex32
  have h: "is_uuid ''0123456789abcdefABCDEF0123456789''
      \<and> is_uuid ''{0123456789abcdefABCDEF0123456789}''
      \<and> is_uuid ''urn:uuid:0123456789abcdefABCDEF0123456789''"
    by simp
  from forms [THEN conjunct2] sample_canonical
  have c: "is_uuid ''{11111111-1111-1111-1111-111111111111}''
      \<and> is_uuid ''urn:uuid:11111111-1111-1111-1111-111111111111''"
    by simp
  from h have b: "is_uuid ''{0123456789abcdefABCDEF0123456789}''" by simp
  from is_uuid_accepts_parser_forms
      [where p = "''{0123456789abcdefABCDEF0123456789}''" and env = sample_env
         and self = acme_view and w = fresh_world, THEN conjunct2, THEN conjunct1] b
  have g: "get_project_id sample_env acme_view (Some ''{0123456789abcdefABCDEF0123456789}'') fresh_world
       = (Inr (Some ''{0123456789abcdefABCDEF0123456789}''), fresh_world)"
    by (rule mp)
  from sample_hex32 h sample_canonical c g show ?thesis by (simp only: simp_thms)
qed

lemmas status_defs = HTTP_400_BAD_REQUEST_def HTTP_404_NOT_FOUND_def HTTP_500_INTERNAL_SERVER_ERROR_def

section \<open>Error classification\<close>

text \<open>
  C2. \<open>handle_exception\<close> first asks the framework's handler. When that handler
  raises an error \<open>e\<close>, both variants answer with the row of the classification
  table that \<open>e\<close> matches first, as the single-key body \<open>{"error": message}\<close>
  with the row's status. When the framework's handler builds a response itself, both
  variants return that response as it is and touch nothing else. Either way a response
  is returned; nothing is raised.
\<close>

theorem handle_exception_classification:
  "(super_handle_exception env exc = Inl e \<longrightarrow>
      fst (BaseViewSet_handle_exception env exc w) = error_response (classification_table e)
      \<and> fst (BaseAPIView_handle_exception env exc w) = error_response (classification_table e))
   \<and> (super_handle_exception env exc = Inr r \<longrightarrow>
      BaseViewSet_handle_exception env exc w = (r, w)
      \<and> BaseAPIView_handle_exception env exc w = (r, w))"
  by (simp add: BaseViewSet_handle_exception_def BaseAPIView_handle_exception_def
      classification_table_def error_response_def status_defs Let_def)

theorem handle_exception_classification_witness:
  "fst (BaseViewSet_handle_exception sample_env (Raised [KeyError, IntegrityError]) fresh_world)
     = \<lparr>data = [(''error'', ''The payload is not valid'')], status = 400\<rparr>
   \<and> fst (BaseAPIView_handle_exception sample_env (Raised [OtherError ''ZeroDivisionError'']) fresh_world)
     = \<lparr>data = [(''error'', ''Something went wrong please try again later'')], status = 500\<rparr>
   \<and> BaseAPIView_handle_exception sample_env
        (Raised [OtherError ''PermissionDenied'', APIException]) fresh_world
     = (\<lparr>data = [(''detail'', ''You do not have permission to perform this action.'')],
         status = 403\<rparr>, fresh_world)"
proof -
  have a: "fst (BaseViewSet_handle_exception sample_env (Raised [KeyError, IntegrityError]) fresh_world)
     = \<lparr>data = [(''error'', ''The payload is not valid'')], status = 400\<rparr>"
    using handle_exception_classification
      [where env = sample_env and exc = "Raised [KeyError, IntegrityError]"
         and e = "Raised [KeyError, IntegrityError]" and w = fresh_world, THEN conjunct1]
    by (simp add: sample_defs isinstance_def classification_table_def error_response_def)
  have b: "fst (BaseAPIView_handle_exception sample_env (Raised [OtherError ''ZeroDivisionError'']) fresh_world)
     = \<lparr>data = [(''error'', ''Something went wrong please try again later'')], status = 500\<rparr>"
    using handle_exception_classification
      [where env = sample_env and exc = "Raised [OtherError ''ZeroDivisionError'']"
         and e = "Raised [OtherError ''ZeroDivisionError'']" and w = fresh_world, THEN conjunct1]
    by (simp add: sample_defs isinstance_def classification_table_def error_response_def)
  have c: "BaseAPIView_handle_exception sample_env
        (Raised [OtherError ''PermissionDenied'', APIException]) fresh_world
     = (\<lparr>data = [(''detail'', ''You do not have permission to perform this action.'')],
         status = 403\<rparr>, fresh_world)"
    using handle_exception_classification
      [where env = sample_env and exc = "Raised [OtherError ''PermissionDenied'', APIException]"
         and w = fresh_world
         and r = "\<lparr>data = [(''detail'', ''You do not have permission to perform this action.'')],
                   status = 403\<rparr>",
       THEN conjunct2]
    by (simp add: sample_defs isinstance_def)
  from a b c show ?thesis by (intro conjI)
qed

text \<open>
  An error the framework answers itself (an API exception) does not get the row of the
  table: the body has the key \<open>detail\<close> and the status is 403, not 500.
\<close>

theorem handle_exception_framework_response:
  "fst (BaseViewSet_handle_exception sample_env (Raised [OtherError ''NotAuthenticated'', APIException]) fresh_world)
     = \<lparr>data = [(''detail'', ''Authentication credentials were not provided.'')], status = 403\<rparr>
   \<and> fst (BaseViewSet_handle_exception sample_env (Raised [OtherError ''NotAuthenticated'', APIException]) fresh_world)
     \<noteq> error_response (classification_table (Raised [OtherError ''NotAuthenticated'', APIException]))"
  by (simp add: BaseViewSet_handle_exception_def sample_defs isinstance_def
      classification_table_def error_response_def)

text \<open>
  C7. The table marks a missing-key error as logged. \<open>BaseViewSet.handle_exception\<close>
  calls \<open>log_exception\<close> for a KeyError; \<open>BaseAPIView.handle_exception\<close>
  answers the same KeyError with the same response and leaves the world as it was: no
  log call.
\<close>

theorem BaseAPIView_KeyError_not_logged:
  "BaseAPIView_handle_exception sample_env (Raised [KeyError]) fresh_world
     = (\<lparr>data = [(''error'', ''The required key does not exist.'')], status = 400\<rparr>, fresh_world)
   \<and> BaseViewSet_handle_exception sample_env (Raised [KeyError]) fresh_world
     = (\<lparr>data = [(''error'', ''The required key does not exist.'')], status = 400\<rparr>,
        \<lparr>active_tz = None, events = [Printed_server_error, Logged (Raised [KeyError])]\<rparr>)"
  by (simp add: BaseAPIView_handle_exception_def BaseViewSet_handle_exception_def sample_defs
      isinstance_def fresh_world_def emit_def log_exception_def status_defs)

section \<open>The locale step\<close>

text \<open>
  C6. \<open>TimezoneMixin.initial\<close> runs the framework's \<open>initial\<close> first. Once
  that has returned, it activates exactly the zone that \<open>ZoneInfo\<close> gives for the
  time zone of an authenticated user, and deactivates the zone for an anonymous user; in
  both cases it returns normally. When the framework's \<open>initial\<close> raises, or
  \<open>ZoneInfo\<close> raises for the user's zone name, \<open>initial\<close> raises that error
  and leaves the zone and everything else as it was.
\<close>

theorem TimezoneMixin_initial_activates:
  "(super_initial env req = None \<and> user req = User tz \<and> ZoneInfo env tz = Inr z \<longrightarrow>
      TimezoneMixin_initial env req w =
        (Inr (), w\<lparr>active_tz := Some z, events := events w @ [Activate z]\<rparr>))
   \<and> (super_initial env req = None \<and> user req = AnonymousUser \<longrightarrow>
      TimezoneMixin_initial env req w =
        (Inr (), w\<lparr>active_tz := None, events := events w @ [Deactivate]\<rparr>))
   \<and> (super_initial env req = Some e \<longrightarrow> TimezoneMixin_initial env req w = (Inl e, w))
   \<and> (super_initial env req = None \<and> user req = User tz \<and> ZoneInfo env tz = Inl ze \<longrightarrow>
      TimezoneMixin_initial env req w = (Inl ze, w))"
  by (simp add: TimezoneMixin_initial_def timezone_activate_def timezone_deactivate_def emit_def)

theorem TimezoneMixin_initial_activates_witness:
  "TimezoneMixin_initial sample_env user_request fresh_world =
     (Inr (), \<lparr>active_tz = Some ''Asia/Kolkata'', events = [Activate ''Asia/Kolkata'']\<rparr>)
   \<and> TimezoneMixin_initial open_env anonymous_request reused_world =
     (Inr (), \<lparr>active_tz = None, events = [Deactivate]\<rparr>)
   \<and> TimezoneMixin_initial sample_env anonymous_request reused_world =
     (Inl (Raised [OtherError ''NotAuthenticated'', APIException]), reused_world)
   \<and> TimezoneMixin_initial sample_env unzoned_request reused_world =
     (Inl (Raised [OtherError ''ZoneInfoNotFoundError'', KeyError]), reused_world)"
proof -
  have a: "TimezoneMixin_initial sample_env user_request fresh_world =
     (Inr (), \<lparr>active_tz = Some ''Asia/Kolkata'', events = [Activate ''Asia/Kolkata'']\<rparr>)"
    using TimezoneMixin_initial_activates
      [where env = sample_env and req = user_request and tz = "''Asia/Kolkata''"
         and z = "''Asia/Kolkata''" and w = fresh_world, THEN conjunct1]
    by (simp add: sample_defs user_request_def fresh_world_def)
  have b: "TimezoneMixin_initial open_env anonymous_request reused_world =
     (Inr (), \<lparr>active_tz = None, events = [Deactivate]\<rparr>)"
    using TimezoneMixin_initial_activates
      [where env = open_env and req = anonymous_request and w = reused_world,
       THEN conjunct2, THEN conjunct1]
    by (simp add: sample_defs anonymous_request_def reused_world_def)
  have c: "TimezoneMixin_initial sample_env anonymous_request reused_world =
     (Inl (Raised [OtherError ''NotAuthenticated'', APIException]), reused_world)"
    using TimezoneMixin_initial_activates
      [where env = sample_env and req = anonymous_request and w = reused_world
         and e = "Raised [OtherError ''NotAuthenticated'', APIException]",
       THEN conjunct2, THEN conjunct2, THEN conjunct1]
    by (simp add: sample_defs anonymous_request_def)
  have d: "TimezoneMixin_initial sample_env unzoned_request reused_world =
     (Inl (Raised [OtherError ''ZoneInfoNotFoundError'', KeyError]), reused_world)"
    using TimezoneMixin_initial_activates
      [where env = sample_env and req = unzoned_request and w = reused_world
         and tz = "''Mars/Phobos''"
         and ze = "Raised [OtherError ''ZoneInfoNotFoundError'', KeyError]",
       THEN conjunct2, THEN conjunct2, THEN conjunct2]
    by (simp add: sample_defs unzoned_request_def)
  from a b c d show ?thesis by (intro conjI)
qed

text \<open>
  With the permission classes both base classes declare, an anonymous request on a thread
  that still carries the zone of an earlier request is rejected by the framework's
  \<open>initial\<close>: \<open>timezone.deactivate()\<close> is not reached, no locale step is among
  the events of the dispatch, and the earlier zone is still active afterwards.
\<close>

theorem anonymous_request_keeps_earlier_zone:
  "TimezoneMixin_initial sample_env anonymous_request reused_world =
     (Inl (Raised [OtherError ''NotAuthenticated'', APIException]), reused_world)
   \<and> active_tz reused_world = Some ''Asia/Kolkata''
   \<and> BaseAPIView_dispatch sample_env acme_view anonymous_request (kwargs acme_view) reused_world =
     (Returned_response
        \<lparr>data = [(''detail'', ''Authentication credentials were not provided.'')], status = 403\<rparr>,
      acme_view, reused_world)"
  by (simp add: TimezoneMixin_initial_def BaseAPIView_dispatch_def BaseAPIView_dispatch_try_def
      APIView_dispatch_def BaseAPIView_handle_exception_def sample_defs anonymous_request_def
      reused_world_def isinstance_def Let_def)

section \<open>What dispatch returns\<close>

text \<open>
  C1. A request whose \<open>project_id\<close> is an alias unknown to its workspace makes
  \<open>BaseViewSet.dispatch\<close> return the ObjectDoesNotExist exception object, after
  computing a response it does not use; a request whose \<open>super().dispatch\<close> raises
  makes \<open>BaseAPIView.dispatch\<close> return that exception object in the same way.
\<close>

theorem dispatch_returns_exception_object:
  "BaseViewSet_dispatch sample_env other_view anonymous_request (kwargs other_view) fresh_world
     = (Returned_exception (Raised [ObjectDoesNotExist]), other_view,
        \<lparr>active_tz = None, events = [Query (Some ''other'') ''ENG'', Printed_server_error]\<rparr>)
   \<and> BaseAPIView_dispatch asserting_env acme_view anonymous_request (kwargs acme_view) fresh_world
     = (Returned_exception (Raised [OtherError ''AssertionError'']), acme_view,
        \<lparr>active_tz = None,
          events = [Deactivate, Handler_invoked None, Logged (Raised [OtherError ''AssertionError''])]\<rparr>)"
proof -
  have a: "BaseViewSet_dispatch sample_env other_view anonymous_request (kwargs other_view) fresh_world
     = (Returned_exception (Raised [ObjectDoesNotExist]), other_view,
        \<lparr>active_tz = None, events = [Query (Some ''other'') ''ENG'', Printed_server_error]\<rparr>)"
    by (simp add: BaseViewSet_dispatch_def BaseViewSet_dispatch_try_def get_project_id_def
        ProjectIdentifier_first_def BaseViewSet_handle_exception_def ENG_not_uuid
        sample_defs other_view_def workspace_slug_def isinstance_def
        fresh_world_def emit_def)
  have b: "BaseAPIView_dispatch asserting_env acme_view anonymous_request (kwargs acme_view) fresh_world
     = (Returned_exception (Raised [OtherError ''AssertionError'']), acme_view,
        \<lparr>active_tz = None,
          events = [Deactivate, Handler_invoked None, Logged (Raised [OtherError ''AssertionError''])]\<rparr>)"
    by (simp add: BaseAPIView_dispatch_def BaseAPIView_dispatch_try_def APIView_dispatch_def
        TimezoneMixin_initial_def BaseAPIView_handle_exception_def timezone_deactivate_def
        sample_defs anonymous_request_def isinstance_def
        fresh_world_def emit_def log_exception_def Let_def)
  from a b show ?thesis by (intro conjI)
qed

section \<open>Events of a dispatch\<close>

lemma lbh_append:
  "locale_before_handler s (xs @ ys) \<longleftrightarrow>
     locale_before_handler s xs \<and> locale_before_handler (s \<or> list_ex is_locale_event xs) ys"
  by (induction xs arbitrary: s) auto

lemma lbh_quiet: "list_all is_quiet d \<Longrightarrow> locale_before_handler s d"
  by (induction d arbitrary: s) (auto simp: is_quiet_def)

lemma lbh_mono: "locale_before_handler s xs \<Longrightarrow> locale_before_handler True xs"
  by (induction xs arbitrary: s) (auto split: if_splits)

lemma quiet_no_locale: "list_all is_quiet d \<Longrightarrow> \<not> list_ex is_locale_event d"
  by (induction d) (auto simp: is_quiet_def)

lemma quiet_step_refl: "quiet_step w w"
  by (simp add: quiet_step_def)

lemma quiet_step_emit: "quiet_step w w1 \<Longrightarrow> is_quiet ev \<Longrightarrow> quiet_step w (emit ev w1)"
  by (auto simp: quiet_step_def emit_def)

lemma quiet_step_trans: "quiet_step w w1 \<Longrightarrow> quiet_step w1 w2 \<Longrightarrow> quiet_step w w2"
  by (auto simp: quiet_step_def)

lemma quiet_imp_guarded: "quiet_step w w1 \<Longrightarrow> guarded_step w w1"
  by (auto simp: quiet_step_def guarded_step_def lbh_quiet)

lemma quiet_guarded: "quiet_step w w1 \<Longrightarrow> guarded_step w1 w2 \<Longrightarrow> guarded_step w w2"
proof -
  assume q: "quiet_step w w1" and g: "guarded_step w1 w2"
  from q obtain d where d: "events w1 = events w @ d" "list_all is_quiet d"
    "active_tz w1 = active_tz w" by (auto simp: quiet_step_def)
  from g obtain new where n: "events w2 = events w1 @ new" "locale_before_handler False new"
    "list_ex is_locale_event new \<or> active_tz w2 = active_tz w1" by (auto simp: guarded_step_def)
  have "locale_before_handler False (d @ new)"
    using d(2) n(2) by (simp add: lbh_append lbh_quiet quiet_no_locale)
  moreover have "list_ex is_locale_event (d @ new) \<or> active_tz w2 = active_tz w"
    using n(3) d(3) by auto
  moreover have "events w2 = events w @ (d @ new)" using d(1) n(1) by simp
  ultimately show ?thesis unfolding guarded_step_def by blast
qed

lemma guarded_quiet: "guarded_step w w1 \<Longrightarrow> quiet_step w1 w2 \<Longrightarrow> guarded_step w w2"
proof -
  assume g: "guarded_step w w1" and q: "quiet_step w1 w2"
  from g obtain new where n: "events w1 = events w @ new" "locale_before_handler False new"
    "list_ex is_locale_event new \<or> active_tz w1 = active_tz w" by (auto simp: guarded_step_def)
  from q obtain d where d: "events w2 = events w1 @ d" "list_all is_quiet d"
    "active_tz w2 = active_tz w1" by (auto simp: quiet_step_def)
  have "locale_before_handler False (new @ d)"
    using d(2) n(2) by (simp add: lbh_append lbh_quiet)
  moreover have "list_ex is_locale_event (new @ d) \<or> active_tz w2 = active_tz w"
    using n(3) d(3) by auto
  moreover have "events w2 = events w @ (new @ d)" using d(1) n(1) by simp
  ultimately show ?thesis unfolding guarded_step_def by blast
qed

lemma BaseViewSet_handle_exception_quiet:
  "quiet_step w (snd (BaseViewSet_handle_exception env exc w))"
  by (cases "super_handle_exception env exc")
     (simp_all add: BaseViewSet_handle_exception_def Let_def log_exception_def
        quiet_step_emit quiet_step_refl is_quiet_def)

lemma BaseAPIView_handle_exception_quiet:
  "quiet_step w (snd (BaseAPIView_handle_exception env exc w))"
  by (cases "super_handle_exception env exc")
     (simp_all add: BaseAPIView_handle_exception_def Let_def log_exception_def
        quiet_step_emit quiet_step_refl is_quiet_def)

lemma get_project_id_quiet: "quiet_step w (snd (get_project_id env self project_id w))"
  by (simp add: get_project_id_def ProjectIdentifier_first_def quiet_step_emit quiet_step_refl
      is_quiet_def split: option.splits list.splits)

lemma locale_then_handler:
  "guarded_step w (emit (Handler_invoked t) (timezone_activate z w))"
  "guarded_step w (emit (Handler_invoked t) (timezone_deactivate w))"
  by (simp_all add: guarded_step_def emit_def timezone_activate_def timezone_deactivate_def)

lemma APIView_dispatch_guarded:
  assumes he: "\<And>exc w. quiet_step w (snd (he env exc w))"
  shows "guarded_step w (snd (snd (APIView_dispatch env TimezoneMixin_initial he self req kw w)))"
proof (cases "TimezoneMixin_initial env req w")
  case (Pair r w1)
  show ?thesis
  proof (cases r)
    case (Inl exc)
    with Pair have "w1 = w"
      by (auto simp: TimezoneMixin_initial_def split: option.splits if_splits sum.splits)
    with Pair Inl show ?thesis
      by (simp add: APIView_dispatch_def split_def Let_def quiet_imp_guarded he)
  next
    case (Inr u)
    let ?w2 = "emit (Handler_invoked (active_tz w1)) w1"
    from Pair Inr have g: "guarded_step w ?w2"
      by (auto simp: TimezoneMixin_initial_def locale_then_handler
          split: option.splits if_splits sum.splits)
    show ?thesis
    proof (cases "handler env req kw (active_tz w1)")
      case (Inl exc)
      have "guarded_step w (snd (he env exc ?w2))" using g he by (rule guarded_quiet)
      with Pair Inr Inl show ?thesis by (simp add: APIView_dispatch_def split_def Let_def)
    next
      case (Inr response)
      with Pair \<open>r = Inr u\<close> g show ?thesis by (simp add: APIView_dispatch_def split_def Let_def)
    qed
  qed
qed


lemma debug_print_guarded:
  "guarded_step w w3 \<Longrightarrow>
   guarded_step w (if DEBUG env then emit (Printed_queries m p) w3 else w3)"
proof (cases "DEBUG env")
  case True
  assume g: "guarded_step w w3"
  have "quiet_step w3 (emit (Printed_queries m p) w3)"
    by (rule quiet_step_emit [OF quiet_step_refl]) (simp add: is_quiet_def)
  with g have "guarded_step w (emit (Printed_queries m p) w3)" by (rule guarded_quiet)
  with True show ?thesis by simp
next
  case False
  assume "guarded_step w w3"
  with False show ?thesis by simp
qed

lemma BaseAPIView_dispatch_try_guarded:
  "guarded_step w (snd (snd (BaseAPIView_dispatch_try env self req kw w)))"
proof (cases "APIView_dispatch env TimezoneMixin_initial BaseAPIView_handle_exception self req kw w")
  case (fields r self1 w1)
  have "guarded_step w (snd (snd (APIView_dispatch env TimezoneMixin_initial
      BaseAPIView_handle_exception self req kw w)))"
    by (rule APIView_dispatch_guarded) (rule BaseAPIView_handle_exception_quiet)
  with fields have g: "guarded_step w w1" by simp
  show ?thesis
    using fields g by (cases r) (simp_all add: BaseAPIView_dispatch_try_def debug_print_guarded)
qed

lemma BaseAPIView_dispatch_guarded:
  "guarded_step w (snd (snd (BaseAPIView_dispatch env self req kw w)))"
proof (cases "BaseAPIView_dispatch_try env self req kw w")
  case (fields r self1 w1)
  have "guarded_step w (snd (snd (BaseAPIView_dispatch_try env self req kw w)))"
    by (rule BaseAPIView_dispatch_try_guarded)
  with fields have g: "guarded_step w w1" by simp
  show ?thesis
  proof (cases r)
    case (Inl exc)
    have "guarded_step w (snd (BaseAPIView_handle_exception env exc w1))"
      using g BaseAPIView_handle_exception_quiet by (rule guarded_quiet)
    with fields Inl show ?thesis by (simp add: BaseAPIView_dispatch_def split_def)
  next
    case (Inr response)
    with fields g show ?thesis by (simp add: BaseAPIView_dispatch_def)
  qed
qed

lemma BaseViewSet_dispatch_try_resolution_fails:
  assumes "truthy (kwargs self ''project_id'')"
    and "get_project_id env self (kwargs self ''project_id'') w = (Inl exc, w1)"
  shows "BaseViewSet_dispatch_try env self req kw w = (Inl exc, self, w1)"
  using assms by (simp add: BaseViewSet_dispatch_try_def)

lemma get_issue_id_eq: "get_issue_id env self issue_id w = (Inr issue_id, w)"
  by (cases issue_id) (simp_all add: get_issue_id_def)

lemma BaseViewSet_dispatch_try_guarded:
  "guarded_step w (snd (snd (BaseViewSet_dispatch_try env self req kw w)))"
proof -
  let ?pid = "kwargs self ''project_id''"
  obtain r1 self1 w1 where s1:
    "(if truthy ?pid then
        (case get_project_id env self ?pid w of
           (Inl exc, w') \<Rightarrow> (Inl exc, self, w')
         | (Inr v, w') \<Rightarrow> (Inr (), self\<lparr>kwargs := (kwargs self)(''project_id'' := v)\<rparr>, w'))
      else (Inr (), self, w)) = (r1, self1, w1)"
    by (rule prod_cases3)
  have q1: "quiet_step w w1"
  proof (cases "truthy ?pid")
    case True
    obtain r w' where g: "get_project_id env self ?pid w = (r, w')" by (rule prod.exhaust)
    have "quiet_step w (snd (get_project_id env self ?pid w))" by (rule get_project_id_quiet)
    with g have "quiet_step w w'" by simp
    with s1 True g show ?thesis by (cases r) simp_all
  next
    case False
    with s1 show ?thesis by (simp add: quiet_step_refl)
  qed
  show ?thesis
  proof (cases r1)
    case (Inl exc)
    with s1 q1 show ?thesis
      by (simp add: BaseViewSet_dispatch_try_def quiet_imp_guarded)
  next
    case (Inr u1)
    let ?iid = "kwargs self1 ''issue_id''"
    obtain r2 self2 w2 where s2:
      "(if truthy ?iid then
          (case get_issue_id env self1 ?iid w1 of
             (Inl exc, w') \<Rightarrow> (Inl exc, self1, w')
           | (Inr v, w') \<Rightarrow> (Inr (), self1\<lparr>kwargs := (kwargs self1)(''issue_id'' := v)\<rparr>, w'))
        else (Inr (), self1, w1)) = (r2, self2, w2)"
      by (rule prod_cases3)
    from s2 have w2: "w2 = w1" and r2: "r2 = Inr ()"
      by (auto simp: get_issue_id_eq split: if_splits)
    obtain r3 self3 w3 where s3:
      "APIView_dispatch env TimezoneMixin_initial BaseViewSet_handle_exception self2 req kw w2
         = (r3, self3, w3)"
      by (rule prod_cases3)
    have "guarded_step w2 (snd (snd (APIView_dispatch env TimezoneMixin_initial
        BaseViewSet_handle_exception self2 req kw w2)))"
      by (rule APIView_dispatch_guarded) (rule BaseViewSet_handle_exception_quiet)
    with s3 w2 have "guarded_step w1 w3" by simp
    with q1 have g3: "guarded_step w w3" by (rule quiet_guarded)
    show ?thesis
      using s1 Inr s2 r2 s3 g3
      by (cases r3) (simp_all add: BaseViewSet_dispatch_try_def debug_print_guarded)
  qed
qed

lemma BaseViewSet_dispatch_guarded:
  "guarded_step w (snd (snd (BaseViewSet_dispatch env self req kw w)))"
proof (cases "BaseViewSet_dispatch_try env self req kw w")
  case (fields r self1 w1)
  have "guarded_step w (snd (snd (BaseViewSet_dispatch_try env self req kw w)))"
    by (rule BaseViewSet_dispatch_try_guarded)
  with fields have g: "guarded_step w w1" by simp
  show ?thesis
  proof (cases r)
    case (Inl exc)
    have "guarded_step w (snd (BaseViewSet_handle_exception env exc w1))"
      using g BaseViewSet_handle_exception_quiet by (rule guarded_quiet)
    with fields Inl show ?thesis by (simp add: BaseViewSet_dispatch_def split_def)
  next
    case (Inr response)
    with fields g show ?thesis by (simp add: BaseViewSet_dispatch_def)
  qed
qed

lemma BaseViewSet_dispatch_resolution_fails:
  assumes "truthy (kwargs self ''project_id'')"
    and "fst (get_project_id env self (kwargs self ''project_id'') w) = Inl exc"
  shows "quiet_step w (snd (snd (BaseViewSet_dispatch env self req kw w)))"
proof -
  obtain r w1 where g: "get_project_id env self (kwargs self ''project_id'') w = (r, w1)"
    by (rule prod.exhaust)
  with assms(2) have g': "get_project_id env self (kwargs self ''project_id'') w = (Inl exc, w1)"
    by simp
  have "quiet_step w (snd (get_project_id env self (kwargs self ''project_id'') w))"
    by (rule get_project_id_quiet)
  with g have q1: "quiet_step w w1" by simp
  have "quiet_step w (snd (BaseViewSet_handle_exception env exc w1))"
    using q1 BaseViewSet_handle_exception_quiet by (rule quiet_step_trans)
  then show ?thesis
    by (simp add: BaseViewSet_dispatch_def split_def
        BaseViewSet_dispatch_try_resolution_fails [OF assms(1) g'])
qed

lemma guarded_step_added:
  assumes "guarded_step w w'"
  shows "events w' = events w @ added_events w w'"
    and "locale_before_handler False (added_events w w')"
    and "list_ex is_locale_event (added_events w w') \<or> active_tz w' = active_tz w"
  using assms by (auto simp: guarded_step_def added_events_def)

lemma quiet_step_added:
  assumes "quiet_step w w'"
  shows "list_all is_quiet (added_events w w')" and "active_tz w' = active_tz w"
  using assms by (auto simp: quiet_step_def added_events_def)


lemma initial_anonymous:
  "super_initial env req = None \<Longrightarrow> user req = AnonymousUser \<Longrightarrow>
   TimezoneMixin_initial env req w = (Inr (), timezone_deactivate w)"
  by (simp add: TimezoneMixin_initial_def)

lemma initial_user:
  "super_initial env req = None \<Longrightarrow> user req = User tz \<Longrightarrow> ZoneInfo env tz = Inr z \<Longrightarrow>
   TimezoneMixin_initial env req w = (Inr (), timezone_activate z w)"
  by (simp add: TimezoneMixin_initial_def)

lemma handled_intro:
  "events w2 = events w @ [l, Handler_invoked t] \<Longrightarrow> quiet_step w2 w3 \<Longrightarrow> handled_step l t w w3"
  unfolding handled_step_def quiet_step_def
  by (rule exI [of _ "[]"]) auto

lemma quiet_handled: "quiet_step w w1 \<Longrightarrow> handled_step l t w1 w2 \<Longrightarrow> handled_step l t w w2"
proof -
  assume q: "quiet_step w w1" and h: "handled_step l t w1 w2"
  from q obtain d where d: "events w1 = events w @ d" "list_all is_quiet d"
    by (auto simp: quiet_step_def)
  from h obtain pre post where p: "events w2 = events w1 @ pre @ l # Handler_invoked t # post"
    "list_all is_quiet pre" "list_all is_quiet post" by (auto simp: handled_step_def)
  have "events w2 = events w @ (d @ pre) @ l # Handler_invoked t # post" using d(1) p(1) by simp
  moreover have "list_all is_quiet (d @ pre)" using d(2) p(2) by simp
  ultimately show ?thesis using p(3) unfolding handled_step_def by blast
qed

lemma handled_quiet: "handled_step l t w w1 \<Longrightarrow> quiet_step w1 w2 \<Longrightarrow> handled_step l t w w2"
proof -
  assume h: "handled_step l t w w1" and q: "quiet_step w1 w2"
  from h obtain pre post where p: "events w1 = events w @ pre @ l # Handler_invoked t # post"
    "list_all is_quiet pre" "list_all is_quiet post" by (auto simp: handled_step_def)
  from q obtain d where d: "events w2 = events w1 @ d" "list_all is_quiet d"
    by (auto simp: quiet_step_def)
  have "events w2 = events w @ pre @ l # Handler_invoked t # (post @ d)" using d(1) p(1) by simp
  moreover have "list_all is_quiet (post @ d)" using d(2) p(3) by simp
  ultimately show ?thesis using p(2) unfolding handled_step_def by blast
qed

lemma filter_quiet: "list_all is_quiet d \<Longrightarrow> filter (\<lambda>ev. \<not> is_quiet ev) d = []"
  by (induction d) auto

lemma handled_step_added:
  assumes "handled_step l t w w'" "is_locale_event l"
  shows "filter (\<lambda>ev. \<not> is_quiet ev) (added_events w w') = [l, Handler_invoked t]"
proof -
  from assms(1) obtain pre post where p: "events w' = events w @ pre @ l # Handler_invoked t # post"
    "list_all is_quiet pre" "list_all is_quiet post" by (auto simp: handled_step_def)
  have "added_events w w' = pre @ l # Handler_invoked t # post"
    using p(1) by (simp add: added_events_def)
  moreover have "\<not> is_quiet l" "\<not> is_quiet (Handler_invoked t)"
    using assms(2) by (simp_all add: is_quiet_def)
  ultimately show ?thesis
    using p(2,3) by (simp add: filter_quiet)
qed

lemma APIView_dispatch_handled:
  assumes he: "\<And>exc w. quiet_step w (snd (he env exc w))"
    and ini: "TimezoneMixin_initial env req w = (Inr (), w1)"
    and ev: "events w1 = events w @ [l]"
  shows "handled_step l (active_tz w1) w
           (snd (snd (APIView_dispatch env TimezoneMixin_initial he self req kw w)))"
proof -
  let ?w2 = "emit (Handler_invoked (active_tz w1)) w1"
  have e2: "events ?w2 = events w @ [l, Handler_invoked (active_tz w1)]"
    using ev by (simp add: emit_def)
  show ?thesis
  proof (cases "handler env req kw (active_tz w1)")
    case (Inl exc)
    have "handled_step l (active_tz w1) w (snd (he env exc ?w2))"
      using e2 he by (rule handled_intro)
    with ini Inl show ?thesis by (simp add: APIView_dispatch_def split_def Let_def)
  next
    case (Inr response)
    have "handled_step l (active_tz w1) w ?w2"
      using e2 quiet_step_refl by (rule handled_intro)
    with ini Inr show ?thesis by (simp add: APIView_dispatch_def split_def Let_def)
  qed
qed

lemma debug_print_handled:
  assumes "handled_step l t w w3"
  shows "handled_step l t w (if DEBUG env then emit (Printed_queries m p) w3 else w3)"
proof (cases "DEBUG env")
  case True
  have "quiet_step w3 (emit (Printed_queries m p) w3)"
    by (rule quiet_step_emit [OF quiet_step_refl]) (simp add: is_quiet_def)
  with assms have "handled_step l t w (emit (Printed_queries m p) w3)" by (rule handled_quiet)
  with True show ?thesis by simp
next
  case False
  with assms show ?thesis by simp
qed

lemma BaseAPIView_dispatch_handled:
  assumes ini: "TimezoneMixin_initial env req w = (Inr (), w1)"
    and ev: "events w1 = events w @ [l]"
  shows "handled_step l (active_tz w1) w (snd (snd (BaseAPIView_dispatch env self req kw w)))"
proof (cases "APIView_dispatch env TimezoneMixin_initial BaseAPIView_handle_exception self req kw w")
  case (fields r self1 w3)
  have "handled_step l (active_tz w1) w (snd (snd (APIView_dispatch env TimezoneMixin_initial
      BaseAPIView_handle_exception self req kw w)))"
    using BaseAPIView_handle_exception_quiet ini ev by (rule APIView_dispatch_handled)
  with fields have h: "handled_step l (active_tz w1) w w3" by simp
  show ?thesis
  proof (cases r)
    case (Inl exc)
    have "handled_step l (active_tz w1) w (snd (BaseAPIView_handle_exception env exc w3))"
      using h BaseAPIView_handle_exception_quiet by (rule handled_quiet)
    with fields Inl show ?thesis
      by (simp add: BaseAPIView_dispatch_def BaseAPIView_dispatch_try_def split_def)
  next
    case (Inr response)
    with fields debug_print_handled [OF h, where env = env and m = "request_method req" and p = "full_path req"]
    show ?thesis
      by (simp add: BaseAPIView_dispatch_def BaseAPIView_dispatch_try_def)
  qed
qed

lemma BaseViewSet_dispatch_handled:
  assumes res: "truthy (kwargs self ''project_id'') \<longrightarrow>
        fst (get_project_id env self (kwargs self ''project_id'') w) = Inr v"
    and ini: "\<And>w0. \<exists>w1. TimezoneMixin_initial env req w0 = (Inr (), w1)
        \<and> events w1 = events w0 @ [l] \<and> active_tz w1 = t"
  shows "handled_step l t w (snd (snd (BaseViewSet_dispatch env self req kw w)))"
proof -
  let ?pid = "kwargs self ''project_id''"
  obtain r1 self1 w1 where s1:
    "(if truthy ?pid then
        (case get_project_id env self ?pid w of
           (Inl exc, w') \<Rightarrow> (Inl exc, self, w')
         | (Inr v, w') \<Rightarrow> (Inr (), self\<lparr>kwargs := (kwargs self)(''project_id'' := v)\<rparr>, w'))
      else (Inr (), self, w)) = (r1, self1, w1)"
    by (rule prod_cases3)
  have q1: "quiet_step w w1 \<and> r1 = Inr ()"
  proof (cases "truthy ?pid")
    case True
    obtain r w' where g: "get_project_id env self ?pid w = (r, w')" by (rule prod.exhaust)
    have "quiet_step w (snd (get_project_id env self ?pid w))" by (rule get_project_id_quiet)
    with g have "quiet_step w w'" by simp
    moreover from res True g have "r = Inr v" by simp
    ultimately show ?thesis using s1 True g by simp
  next
    case False
    with s1 show ?thesis by (simp add: quiet_step_refl)
  qed
  let ?iid = "kwargs self1 ''issue_id''"
  obtain r2 self2 w2 where s2:
    "(if truthy ?iid then
        (case get_issue_id env self1 ?iid w1 of
           (Inl exc, w') \<Rightarrow> (Inl exc, self1, w')
         | (Inr v, w') \<Rightarrow> (Inr (), self1\<lparr>kwargs := (kwargs self1)(''issue_id'' := v)\<rparr>, w'))
      else (Inr (), self1, w1)) = (r2, self2, w2)"
    by (rule prod_cases3)
  from s2 have w2: "w2 = w1" and r2: "r2 = Inr ()"
    by (auto simp: get_issue_id_eq split: if_splits)
  obtain r3 self3 w3 where s3:
    "APIView_dispatch env TimezoneMixin_initial BaseViewSet_handle_exception self2 req kw w2
       = (r3, self3, w3)"
    by (rule prod_cases3)
  from ini [of w2] obtain wi where wi: "TimezoneMixin_initial env req w2 = (Inr (), wi)"
    "events wi = events w2 @ [l]" "active_tz wi = t" by blast
  have "handled_step l (active_tz wi) w2 (snd (snd (APIView_dispatch env TimezoneMixin_initial
      BaseViewSet_handle_exception self2 req kw w2)))"
    using BaseViewSet_handle_exception_quiet wi(1,2) by (rule APIView_dispatch_handled)
  with s3 w2 wi(3) have "handled_step l t w1 w3" by simp
  with q1 have h3: "handled_step l t w w3" by (auto intro: quiet_handled)
  have body: "BaseViewSet_dispatch_try env self req kw w =
      (case r3 of
         Inl exc \<Rightarrow> (Inl exc, self3, w3)
       | Inr response \<Rightarrow>
           (Inr response, self3,
            if DEBUG env then emit (Printed_queries (request_method req) (full_path req)) w3 else w3))"
    using s1 q1 s2 r2 s3 by (cases r3) (simp_all add: BaseViewSet_dispatch_try_def)
  show ?thesis
  proof (cases r3)
    case (Inl exc)
    have "handled_step l t w (snd (BaseViewSet_handle_exception env exc w3))"
      using h3 BaseViewSet_handle_exception_quiet by (rule handled_quiet)
    with Inl show ?thesis
      by (simp add: BaseViewSet_dispatch_def body split_def)
  next
    case (Inr response)
    with debug_print_handled [OF h3, where env = env and m = "request_method req" and p = "full_path req"]
    show ?thesis
      by (simp add: BaseViewSet_dispatch_def body)
  qed
qed


lemma initial_denied:
  "super_initial env req = Some e \<Longrightarrow> TimezoneMixin_initial env req w = (Inl e, w)"
  by (simp add: TimezoneMixin_initial_def)

lemma initial_unzoned:
  "super_initial env req = None \<Longrightarrow> user req = User tz \<Longrightarrow> ZoneInfo env tz = Inl ze \<Longrightarrow>
   TimezoneMixin_initial env req w = (Inl ze, w)"
  by (simp add: TimezoneMixin_initial_def)

lemma debug_print_quiet:
  assumes "quiet_step w w3"
  shows "quiet_step w (if DEBUG env then emit (Printed_queries m p) w3 else w3)"
proof (cases "DEBUG env")
  case True
  have "quiet_step w (emit (Printed_queries m p) w3)"
    using assms by (rule quiet_step_emit) (simp add: is_quiet_def)
  with True show ?thesis by simp
next
  case False
  with assms show ?thesis by simp
qed

lemma APIView_dispatch_quiet:
  assumes he: "\<And>exc w. quiet_step w (snd (he env exc w))"
    and ini: "TimezoneMixin_initial env req w = (Inl exc, w)"
  shows "quiet_step w (snd (snd (APIView_dispatch env TimezoneMixin_initial he self req kw w)))"
  using he [of w exc] by (simp add: APIView_dispatch_def ini split_def Let_def)

lemma BaseAPIView_dispatch_quiet:
  assumes ini: "TimezoneMixin_initial env req w = (Inl exc, w)"
  shows "quiet_step w (snd (snd (BaseAPIView_dispatch env self req kw w)))"
proof (cases "APIView_dispatch env TimezoneMixin_initial BaseAPIView_handle_exception self req kw w")
  case (fields r self1 w3)
  have "quiet_step w (snd (snd (APIView_dispatch env TimezoneMixin_initial
      BaseAPIView_handle_exception self req kw w)))"
    using BaseAPIView_handle_exception_quiet ini by (rule APIView_dispatch_quiet)
  with fields have q: "quiet_step w w3" by simp
  show ?thesis
  proof (cases r)
    case (Inl exc')
    have "quiet_step w (snd (BaseAPIView_handle_exception env exc' w3))"
      using q BaseAPIView_handle_exception_quiet by (rule quiet_step_trans)
    with fields Inl show ?thesis
      by (simp add: BaseAPIView_dispatch_def BaseAPIView_dispatch_try_def split_def)
  next
    case (Inr response)
    with fields
      debug_print_quiet [OF q, where env = env and m = "request_method req" and p = "full_path req"]
    show ?thesis
      by (simp add: BaseAPIView_dispatch_def BaseAPIView_dispatch_try_def)
  qed
qed

lemma BaseViewSet_dispatch_quiet:
  assumes ini: "\<And>w0. TimezoneMixin_initial env req w0 = (Inl exc, w0)"
  shows "quiet_step w (snd (snd (BaseViewSet_dispatch env self req kw w)))"
proof -
  let ?pid = "kwargs self ''project_id''"
  obtain r1 self1 w1 where s1:
    "(if truthy ?pid then
        (case get_project_id env self ?pid w of
           (Inl exc, w') \<Rightarrow> (Inl exc, self, w')
         | (Inr v, w') \<Rightarrow> (Inr (), self\<lparr>kwargs := (kwargs self)(''project_id'' := v)\<rparr>, w'))
      else (Inr (), self, w)) = (r1, self1, w1)"
    by (rule prod_cases3)
  have q1: "quiet_step w w1"
  proof (cases "truthy ?pid")
    case True
    obtain r w' where g: "get_project_id env self ?pid w = (r, w')" by (rule prod.exhaust)
    have "quiet_step w (snd (get_project_id env self ?pid w))" by (rule get_project_id_quiet)
    with g have "quiet_step w w'" by simp
    with s1 True g show ?thesis by (cases r) simp_all
  next
    case False
    with s1 show ?thesis by (simp add: quiet_step_refl)
  qed
  show ?thesis
  proof (cases r1)
    case (Inl exc')
    have "quiet_step w (snd (BaseViewSet_handle_exception env exc' w1))"
      using q1 BaseViewSet_handle_exception_quiet by (rule quiet_step_trans)
    moreover have "BaseViewSet_dispatch_try env self req kw w = (Inl exc', self1, w1)"
      using s1 Inl by (simp add: BaseViewSet_dispatch_try_def)
    ultimately show ?thesis by (simp add: BaseViewSet_dispatch_def split_def)
  next
    case (Inr u1)
    let ?iid = "kwargs self1 ''issue_id''"
    obtain r2 self2 w2 where s2:
      "(if truthy ?iid then
          (case get_issue_id env self1 ?iid w1 of
             (Inl exc, w') \<Rightarrow> (Inl exc, self1, w')
           | (Inr v, w') \<Rightarrow> (Inr (), self1\<lparr>kwargs := (kwargs self1)(''issue_id'' := v)\<rparr>, w'))
        else (Inr (), self1, w1)) = (r2, self2, w2)"
      by (rule prod_cases3)
    from s2 have w2: "w2 = w1" and r2: "r2 = Inr ()"
      by (auto simp: get_issue_id_eq split: if_splits)
    obtain r3 self3 w3 where s3:
      "APIView_dispatch env TimezoneMixin_initial BaseViewSet_handle_exception self2 req kw w2
         = (r3, self3, w3)"
      by (rule prod_cases3)
    have "quiet_step w2 (snd (snd (APIView_dispatch env TimezoneMixin_initial
        BaseViewSet_handle_exception self2 req kw w2)))"
      using BaseViewSet_handle_exception_quiet ini by (rule APIView_dispatch_quiet)
    with s3 w2 have "quiet_step w1 w3" by simp
    with q1 have q3: "quiet_step w w3" by (rule quiet_step_trans)
    have body: "BaseViewSet_dispatch_try env self req kw w =
        (case r3 of
           Inl exc \<Rightarrow> (Inl exc, self3, w3)
         | Inr response \<Rightarrow>
             (Inr response, self3,
              if DEBUG env then emit (Printed_queries (request_method req) (full_path req)) w3
              else w3))"
      using s1 Inr s2 r2 s3 by (cases r3) (simp_all add: BaseViewSet_dispatch_try_def)
    show ?thesis
    proof (cases r3)
      case (Inl exc')
      have "quiet_step w (snd (BaseViewSet_handle_exception env exc' w3))"
        using q3 BaseViewSet_handle_exception_quiet by (rule quiet_step_trans)
      with Inl show ?thesis by (simp add: BaseViewSet_dispatch_def body split_def)
    next
      case (Inr response)
      with debug_print_quiet [OF q3, where env = env and m = "request_method req"
          and p = "full_path req"]
      show ?thesis by (simp add: BaseViewSet_dispatch_def body)
    qed
  qed
qed

text \<open>
  C5. In both dispatch methods every handler call comes after a locale step of the same
  dispatch, and the active zone changes only if a locale step ran. The locale step is
  reached only through \<open>super().dispatch\<close>. When identifier resolution fails in
  \<open>BaseViewSet.dispatch\<close>, when \<open>super().initial\<close> raises, or when
  \<open>ZoneInfo\<close> raises for the user's zone name, neither the locale step nor the
  handler runs and the active zone stays what it was. When identifier resolution and
  \<open>super().initial\<close> succeed and, for an authenticated user, \<open>ZoneInfo\<close> accepts the
  zone name, the locale step runs once and the handler call follows it directly, under
  that zone.
\<close>

theorem locale_step_precedes_handler:
  "locale_before_handler False
     (added_events w (snd (snd (BaseViewSet_dispatch env self req kw w))))
   \<and> locale_before_handler False
     (added_events w (snd (snd (BaseAPIView_dispatch env self req kw w))))
   \<and> (list_ex is_locale_event (added_events w (snd (snd (BaseViewSet_dispatch env self req kw w))))
        \<or> active_tz (snd (snd (BaseViewSet_dispatch env self req kw w))) = active_tz w)
   \<and> (list_ex is_locale_event (added_events w (snd (snd (BaseAPIView_dispatch env self req kw w))))
        \<or> active_tz (snd (snd (BaseAPIView_dispatch env self req kw w))) = active_tz w)
   \<and> (truthy (kwargs self ''project_id'')
        \<and> fst (get_project_id env self (kwargs self ''project_id'') w) = Inl exc \<longrightarrow>
        list_all is_quiet (added_events w (snd (snd (BaseViewSet_dispatch env self req kw w))))
        \<and> active_tz (snd (snd (BaseViewSet_dispatch env self req kw w))) = active_tz w)
   \<and> ((truthy (kwargs self ''project_id'') \<longrightarrow>
           fst (get_project_id env self (kwargs self ''project_id'') w) = Inr v)
        \<and> super_initial env req = None \<and> user req = AnonymousUser \<longrightarrow>
        filter (\<lambda>ev. \<not> is_quiet ev)
          (added_events w (snd (snd (BaseViewSet_dispatch env self req kw w))))
          = [Deactivate, Handler_invoked None]
        \<and> filter (\<lambda>ev. \<not> is_quiet ev)
          (added_events w (snd (snd (BaseAPIView_dispatch env self req kw w))))
          = [Deactivate, Handler_invoked None])
   \<and> ((truthy (kwargs self ''project_id'') \<longrightarrow>
           fst (get_project_id env self (kwargs self ''project_id'') w) = Inr v)
        \<and> super_initial env req = None \<and> user req = User tz \<and> ZoneInfo env tz = Inr z \<longrightarrow>
        filter (\<lambda>ev. \<not> is_quiet ev)
          (added_events w (snd (snd (BaseViewSet_dispatch env self req kw w))))
          = [Activate z, Handler_invoked (Some z)]
        \<and> filter (\<lambda>ev. \<not> is_quiet ev)
          (added_events w (snd (snd (BaseAPIView_dispatch env self req kw w))))
          = [Activate z, Handler_invoked (Some z)])
   \<and> (super_initial env req = Some e
        \<or> (super_initial env req = None \<and> user req = User tz \<and> ZoneInfo env tz = Inl ze) \<longrightarrow>
        list_all is_quiet (added_events w (snd (snd (BaseViewSet_dispatch env self req kw w))))
        \<and> active_tz (snd (snd (BaseViewSet_dispatch env self req kw w))) = active_tz w
        \<and> list_all is_quiet (added_events w (snd (snd (BaseAPIView_dispatch env self req kw w))))
        \<and> active_tz (snd (snd (BaseAPIView_dispatch env self req kw w))) = active_tz w)"
proof -
  have g1: "locale_before_handler False
     (added_events w (snd (snd (BaseViewSet_dispatch env self req kw w))))"
    by (rule guarded_step_added(2) [OF BaseViewSet_dispatch_guarded])
  have g2: "locale_before_handler False
     (added_events w (snd (snd (BaseAPIView_dispatch env self req kw w))))"
    by (rule guarded_step_added(2) [OF BaseAPIView_dispatch_guarded])
  have g3: "list_ex is_locale_event (added_events w (snd (snd (BaseViewSet_dispatch env self req kw w))))
        \<or> active_tz (snd (snd (BaseViewSet_dispatch env self req kw w))) = active_tz w"
    by (rule guarded_step_added(3) [OF BaseViewSet_dispatch_guarded])
  have g4: "list_ex is_locale_event (added_events w (snd (snd (BaseAPIView_dispatch env self req kw w))))
        \<or> active_tz (snd (snd (BaseAPIView_dispatch env self req kw w))) = active_tz w"
    by (rule guarded_step_added(3) [OF BaseAPIView_dispatch_guarded])
  have f: "truthy (kwargs self ''project_id'')
        \<and> fst (get_project_id env self (kwargs self ''project_id'') w) = Inl exc \<longrightarrow>
        list_all is_quiet (added_events w (snd (snd (BaseViewSet_dispatch env self req kw w))))
        \<and> active_tz (snd (snd (BaseViewSet_dispatch env self req kw w))) = active_tz w"
  proof (intro impI conjI)
    assume "truthy (kwargs self ''project_id'')
      \<and> fst (get_project_id env self (kwargs self ''project_id'') w) = Inl exc"
    then have q: "quiet_step w (snd (snd (BaseViewSet_dispatch env self req kw w)))"
      by (intro BaseViewSet_dispatch_resolution_fails) simp_all
    show "list_all is_quiet (added_events w (snd (snd (BaseViewSet_dispatch env self req kw w))))"
      by (rule quiet_step_added(1) [OF q])
    show "active_tz (snd (snd (BaseViewSet_dispatch env self req kw w))) = active_tz w"
      by (rule quiet_step_added(2) [OF q])
  qed
  have an: "(truthy (kwargs self ''project_id'') \<longrightarrow>
           fst (get_project_id env self (kwargs self ''project_id'') w) = Inr v)
        \<and> super_initial env req = None \<and> user req = AnonymousUser \<longrightarrow>
        filter (\<lambda>ev. \<not> is_quiet ev)
          (added_events w (snd (snd (BaseViewSet_dispatch env self req kw w))))
          = [Deactivate, Handler_invoked None]
        \<and> filter (\<lambda>ev. \<not> is_quiet ev)
          (added_events w (snd (snd (BaseAPIView_dispatch env self req kw w))))
          = [Deactivate, Handler_invoked None]"
  proof (intro impI conjI)
    assume h: "(truthy (kwargs self ''project_id'') \<longrightarrow>
           fst (get_project_id env self (kwargs self ''project_id'') w) = Inr v)
        \<and> super_initial env req = None \<and> user req = AnonymousUser"
    then have ini: "\<And>w0. TimezoneMixin_initial env req w0 = (Inr (), timezone_deactivate w0)"
      by (simp add: initial_anonymous)
    have ev: "\<And>w0. events (timezone_deactivate w0) = events w0 @ [Deactivate]"
      "\<And>w0. active_tz (timezone_deactivate w0) = None"
      by (simp_all add: timezone_deactivate_def emit_def)
    have "handled_step Deactivate None w (snd (snd (BaseViewSet_dispatch env self req kw w)))"
    proof (rule BaseViewSet_dispatch_handled)
      show "truthy (kwargs self ''project_id'') \<longrightarrow>
          fst (get_project_id env self (kwargs self ''project_id'') w) = Inr v"
        using h by simp
      show "\<exists>w1. TimezoneMixin_initial env req w0 = (Inr (), w1)
          \<and> events w1 = events w0 @ [Deactivate] \<and> active_tz w1 = None" for w0
        using ini [of w0] ev by simp
    qed
    then show "filter (\<lambda>ev. \<not> is_quiet ev)
        (added_events w (snd (snd (BaseViewSet_dispatch env self req kw w))))
        = [Deactivate, Handler_invoked None]"
      by (rule handled_step_added) simp
    have "handled_step Deactivate (active_tz (timezone_deactivate w)) w
        (snd (snd (BaseAPIView_dispatch env self req kw w)))"
      using ini [of w] ev(1) [of w] by (rule BaseAPIView_dispatch_handled)
    then have "handled_step Deactivate None w (snd (snd (BaseAPIView_dispatch env self req kw w)))"
      by (simp add: ev(2))
    then show "filter (\<lambda>ev. \<not> is_quiet ev)
        (added_events w (snd (snd (BaseAPIView_dispatch env self req kw w))))
        = [Deactivate, Handler_invoked None]"
      by (rule handled_step_added) simp
  qed
  have us: "(truthy (kwargs self ''project_id'') \<longrightarrow>
           fst (get_project_id env self (kwargs self ''project_id'') w) = Inr v)
        \<and> super_initial env req = None \<and> user req = User tz \<and> ZoneInfo env tz = Inr z \<longrightarrow>
        filter (\<lambda>ev. \<not> is_quiet ev)
          (added_events w (snd (snd (BaseViewSet_dispatch env self req kw w))))
          = [Activate z, Handler_invoked (Some z)]
        \<and> filter (\<lambda>ev. \<not> is_quiet ev)
          (added_events w (snd (snd (BaseAPIView_dispatch env self req kw w))))
          = [Activate z, Handler_invoked (Some z)]"
  proof (intro impI conjI)
    assume h: "(truthy (kwargs self ''project_id'') \<longrightarrow>
           fst (get_project_id env self (kwargs self ''project_id'') w) = Inr v)
        \<and> super_initial env req = None \<and> user req = User tz \<and> ZoneInfo env tz = Inr z"
    then have ini: "\<And>w0. TimezoneMixin_initial env req w0 = (Inr (), timezone_activate z w0)"
      by (simp add: initial_user)
    have ev: "\<And>w0. events (timezone_activate z w0) = events w0 @ [Activate z]"
      "\<And>w0. active_tz (timezone_activate z w0) = Some z"
      by (simp_all add: timezone_activate_def emit_def)
    have "handled_step (Activate z) (Some z) w (snd (snd (BaseViewSet_dispatch env self req kw w)))"
    proof (rule BaseViewSet_dispatch_handled)
      show "truthy (kwargs self ''project_id'') \<longrightarrow>
          fst (get_project_id env self (kwargs self ''project_id'') w) = Inr v"
        using h by simp
      show "\<exists>w1. TimezoneMixin_initial env req w0 = (Inr (), w1)
          \<and> events w1 = events w0 @ [Activate z] \<and> active_tz w1 = Some z" for w0
        using ini [of w0] ev by simp
    qed
    then show "filter (\<lambda>ev. \<not> is_quiet ev)
        (added_events w (snd (snd (BaseViewSet_dispatch env self req kw w))))
        = [Activate z, Handler_invoked (Some z)]"
      by (rule handled_step_added) simp
    have "handled_step (Activate z) (active_tz (timezone_activate z w)) w
        (snd (snd (BaseAPIView_dispatch env self req kw w)))"
      using ini [of w] ev(1) [of w] by (rule BaseAPIView_dispatch_handled)
    then have "handled_step (Activate z) (Some z) w (snd (snd (BaseAPIView_dispatch env self req kw w)))"
      by (simp add: ev(2))
    then show "filter (\<lambda>ev. \<not> is_quiet ev)
        (added_events w (snd (snd (BaseAPIView_dispatch env self req kw w))))
        = [Activate z, Handler_invoked (Some z)]"
      by (rule handled_step_added) simp
  qed
  have no: "super_initial env req = Some e
        \<or> (super_initial env req = None \<and> user req = User tz \<and> ZoneInfo env tz = Inl ze) \<longrightarrow>
        list_all is_quiet (added_events w (snd (snd (BaseViewSet_dispatch env self req kw w))))
        \<and> active_tz (snd (snd (BaseViewSet_dispatch env self req kw w))) = active_tz w
        \<and> list_all is_quiet (added_events w (snd (snd (BaseAPIView_dispatch env self req kw w))))
        \<and> active_tz (snd (snd (BaseAPIView_dispatch env self req kw w))) = active_tz w"
  proof (intro impI)
    assume h: "super_initial env req = Some e
        \<or> (super_initial env req = None \<and> user req = User tz \<and> ZoneInfo env tz = Inl ze)"
    then obtain x where ini: "\<And>w0. TimezoneMixin_initial env req w0 = (Inl x, w0)"
    proof
      assume "super_initial env req = Some e"
      then have "\<And>w0. TimezoneMixin_initial env req w0 = (Inl e, w0)" by (rule initial_denied)
      then show ?thesis by (rule that)
    next
      assume "super_initial env req = None \<and> user req = User tz \<and> ZoneInfo env tz = Inl ze"
      then have "\<And>w0. TimezoneMixin_initial env req w0 = (Inl ze, w0)"
        by (simp add: initial_unzoned)
      then show ?thesis by (rule that)
    qed
    have q1: "quiet_step w (snd (snd (BaseViewSet_dispatch env self req kw w)))"
      using ini by (rule BaseViewSet_dispatch_quiet)
    have q2: "quiet_step w (snd (snd (BaseAPIView_dispatch env self req kw w)))"
      using ini [of w] by (rule BaseAPIView_dispatch_quiet)
    from quiet_step_added [OF q1] quiet_step_added [OF q2]
    show "list_all is_quiet (added_events w (snd (snd (BaseViewSet_dispatch env self req kw w))))
        \<and> active_tz (snd (snd (BaseViewSet_dispatch env self req kw w))) = active_tz w
        \<and> list_all is_quiet (added_events w (snd (snd (BaseAPIView_dispatch env self req kw w))))
        \<and> active_tz (snd (snd (BaseAPIView_dispatch env self req kw w))) = active_tz w"
      by (intro conjI)
  qed
  from g1 g2 g3 g4 f an us no show ?thesis by (intro conjI)
qed

lemma ENG_found:
  "get_project_id sample_env acme_view (Some ''ENG'') w =
     (Inr (Some ''11111111-1111-1111-1111-111111111111''), emit (Query (Some ''acme'') ''ENG'') w)"
  by (simp add: get_project_id_def ProjectIdentifier_first_def ENG_not_uuid sample_defs
      acme_view_def workspace_slug_def)

lemma ENG_missing:
  "get_project_id sample_env other_view (Some ''ENG'') w =
     (Inl (Raised [ObjectDoesNotExist]), emit (Query (Some ''other'') ''ENG'') w)"
  by (simp add: get_project_id_def ProjectIdentifier_first_def ENG_not_uuid sample_defs
      other_view_def workspace_slug_def)

lemma ENG_found_open:
  "get_project_id open_env acme_view (Some ''ENG'') w =
     (Inr (Some ''11111111-1111-1111-1111-111111111111''), emit (Query (Some ''acme'') ''ENG'') w)"
  by (simp add: get_project_id_def ProjectIdentifier_first_def ENG_not_uuid sample_defs
      acme_view_def workspace_slug_def)

theorem locale_step_precedes_handler_witness:
  "filter (\<lambda>ev. \<not> is_quiet ev)
      (added_events reused_world
         (snd (snd (BaseViewSet_dispatch sample_env acme_view user_request (kwargs acme_view)
            reused_world))))
      = [Activate ''Asia/Kolkata'', Handler_invoked (Some ''Asia/Kolkata'')]
   \<and> filter (\<lambda>ev. \<not> is_quiet ev)
      (added_events reused_world
         (snd (snd (BaseAPIView_dispatch open_env acme_view anonymous_request (kwargs acme_view)
            reused_world))))
      = [Deactivate, Handler_invoked None]
   \<and> list_all is_quiet
      (added_events reused_world
         (snd (snd (BaseViewSet_dispatch sample_env other_view anonymous_request (kwargs other_view)
            reused_world))))
   \<and> active_tz (snd (snd (BaseViewSet_dispatch sample_env other_view anonymous_request
        (kwargs other_view) reused_world))) = Some ''Asia/Kolkata''
   \<and> list_all is_quiet
      (added_events reused_world
         (snd (snd (BaseAPIView_dispatch sample_env acme_view anonymous_request (kwargs acme_view)
            reused_world))))
   \<and> active_tz (snd (snd (BaseAPIView_dispatch sample_env acme_view anonymous_request
        (kwargs acme_view) reused_world))) = Some ''Asia/Kolkata''
   \<and> list_all is_quiet
      (added_events fresh_world
         (snd (snd (BaseViewSet_dispatch sample_env acme_view unzoned_request (kwargs acme_view)
            fresh_world))))
   \<and> active_tz (snd (snd (BaseViewSet_dispatch sample_env acme_view unzoned_request
        (kwargs acme_view) fresh_world))) = None"
proof -
  have pa: "kwargs acme_view ''project_id'' = Some ''ENG''"
    and po: "kwargs other_view ''project_id'' = Some ''ENG''"
    by (simp_all add: acme_view_def other_view_def)
  note user = locale_step_precedes_handler
      [where env = sample_env and self = acme_view and req = user_request
         and kw = "kwargs acme_view" and w = reused_world
         and v = "Some ''11111111-1111-1111-1111-111111111111''"
         and tz = "''Asia/Kolkata''" and z = "''Asia/Kolkata''"]
  note anon = locale_step_precedes_handler
      [where env = open_env and self = acme_view and req = anonymous_request
         and kw = "kwargs acme_view" and w = reused_world
         and v = "Some ''11111111-1111-1111-1111-111111111111''"]
  note fail = locale_step_precedes_handler
      [where env = sample_env and self = other_view and req = anonymous_request
         and kw = "kwargs other_view" and w = reused_world
         and exc = "Raised [ObjectDoesNotExist]"]
  note denied = locale_step_precedes_handler
      [where env = sample_env and self = acme_view and req = anonymous_request
         and kw = "kwargs acme_view" and w = reused_world
         and e = "Raised [OtherError ''NotAuthenticated'', APIException]"]
  note unzoned = locale_step_precedes_handler
      [where env = sample_env and self = acme_view and req = unzoned_request
         and kw = "kwargs acme_view" and w = fresh_world and tz = "''Mars/Phobos''"
         and ze = "Raised [OtherError ''ZoneInfoNotFoundError'', KeyError]"]
  have a: "filter (\<lambda>ev. \<not> is_quiet ev)
      (added_events reused_world
         (snd (snd (BaseViewSet_dispatch sample_env acme_view user_request (kwargs acme_view)
            reused_world))))
      = [Activate ''Asia/Kolkata'', Handler_invoked (Some ''Asia/Kolkata'')]"
    using user [THEN conjunct2, THEN conjunct2, THEN conjunct2, THEN conjunct2, THEN conjunct2,
        THEN conjunct2, THEN conjunct1]
    by (simp add: pa ENG_found) (simp add: sample_defs user_request_def)
  have b: "filter (\<lambda>ev. \<not> is_quiet ev)
      (added_events reused_world
         (snd (snd (BaseAPIView_dispatch open_env acme_view anonymous_request (kwargs acme_view)
            reused_world))))
      = [Deactivate, Handler_invoked None]"
    using anon [THEN conjunct2, THEN conjunct2, THEN conjunct2, THEN conjunct2, THEN conjunct2,
        THEN conjunct1]
    by (simp add: pa ENG_found_open) (simp add: sample_defs anonymous_request_def)
  have c: "list_all is_quiet
      (added_events reused_world
         (snd (snd (BaseViewSet_dispatch sample_env other_view anonymous_request (kwargs other_view)
            reused_world))))
     \<and> active_tz (snd (snd (BaseViewSet_dispatch sample_env other_view anonymous_request
        (kwargs other_view) reused_world))) = Some ''Asia/Kolkata''"
    using fail [THEN conjunct2, THEN conjunct2, THEN conjunct2, THEN conjunct2, THEN conjunct1]
    by (simp add: po ENG_missing) (simp add: reused_world_def)
  have s1: "super_initial sample_env anonymous_request
      = Some (Raised [OtherError ''NotAuthenticated'', APIException])"
    by (simp add: sample_defs anonymous_request_def)
  have d: "list_all is_quiet
      (added_events reused_world
         (snd (snd (BaseAPIView_dispatch sample_env acme_view anonymous_request (kwargs acme_view)
            reused_world))))
     \<and> active_tz (snd (snd (BaseAPIView_dispatch sample_env acme_view anonymous_request
        (kwargs acme_view) reused_world))) = Some ''Asia/Kolkata''"
    using denied [THEN conjunct2, THEN conjunct2, THEN conjunct2, THEN conjunct2, THEN conjunct2,
        THEN conjunct2, THEN conjunct2]
    by (simp add: s1) (simp add: reused_world_def)
  have s2: "super_initial sample_env unzoned_request = None"
    "user unzoned_request = User ''Mars/Phobos''"
    "ZoneInfo sample_env ''Mars/Phobos'' = Inl (Raised [OtherError ''ZoneInfoNotFoundError'', KeyError])"
    by (simp_all add: sample_defs unzoned_request_def)
  have e: "list_all is_quiet
      (added_events fresh_world
         (snd (snd (BaseViewSet_dispatch sample_env acme_view unzoned_request (kwargs acme_view)
            fresh_world))))
     \<and> active_tz (snd (snd (BaseViewSet_dispatch sample_env acme_view unzoned_request
        (kwargs acme_view) fresh_world))) = None"
    using unzoned [THEN conjunct2, THEN conjunct2, THEN conjunct2, THEN conjunct2, THEN conjunct2,
        THEN conjunct2, THEN conjunct2]
    by (simp add: s2) (simp add: fresh_world_def)
  from a b c d e show ?thesis by (intro conjI) simp_all
qed

text \<open>
  On a thread that still carries the zone of an earlier request, an anonymous request
  with an unknown alias leaves \<open>BaseViewSet.dispatch\<close> without any locale step, and
  the earlier zone is still active afterwards.
\<close>

theorem locale_step_skipped_when_resolution_fails:
  "\<not> list_ex is_locale_event
       (added_events reused_world
          (snd (snd (BaseViewSet_dispatch sample_env other_view anonymous_request
             (kwargs other_view) reused_world))))
   \<and> active_tz (snd (snd (BaseViewSet_dispatch sample_env other_view anonymous_request
        (kwargs other_view) reused_world))) = Some ''Asia/Kolkata''"
  by (simp add: BaseViewSet_dispatch_def BaseViewSet_dispatch_try_def get_project_id_def
      ProjectIdentifier_first_def BaseViewSet_handle_exception_def ENG_not_uuid
      sample_defs other_view_def workspace_slug_def isinstance_def
      reused_world_def emit_def added_events_def)

end
